theory Spec2Isabelle
  imports Complex_Main "HOL-Library.AList"
begin

section \<open>Conventions of the embedding\<close>

text \<open>
  The Python sources are \<^verbatim>\<open>src/main.py\<close> (the EMA calculator and the reference strategy
  \<^verbatim>\<open>ema_trend_strategy\<close>) and \<^verbatim>\<open>src/modules.py\<close> (DataHandler, StrategyEngine,
  TradeManager, ResultAnalyzer).

  \<^item> Python floats are modelled as \<^typ>\<open>real\<close>: infinities and NaN are not part of the
    model, and rounding is modelled in \<^verbatim>\<open>generate_report\<close> only, where it is a parameter.
    A Python value that may be \<^verbatim>\<open>None\<close> is an \<^typ>\<open>'a option\<close>.
  \<^item> Every exception of the source is a value of \<open>py_error\<close>; a function that can raise
    returns \<open>py_error + 'a\<close> with \<open>Inl\<close> for the exception.
  \<^item> Mutable objects are passed in and returned; the trade dictionaries that are shared
    between the trade log and the position table live in an explicit object store.
\<close>

datatype py_error = KeyError | TypeError | ZeroDivisionError | ValueError

section \<open>The EMA calculator (main.py, class EMA)\<close>

record EMA =
  window :: int
  alpha :: real
  ema_value :: "real option"

text \<open>\<^verbatim>\<open>EMA.__init__\<close>: \<^verbatim>\<open>alpha = 2 / (window + 1)\<close> raises for \<^verbatim>\<open>window = -1\<close>.\<close>

definition EMA_init :: "int \<Rightarrow> py_error + EMA" where
  "EMA_init w =
     (if w + 1 = 0 then Inl ZeroDivisionError
      else Inr \<lparr>window = w, alpha = 2 / real_of_int (w + 1), ema_value = None\<rparr>)"

text \<open>\<^verbatim>\<open>EMA.update\<close>: the first price seeds the value, later prices are smoothed in.\<close>

definition EMA_update :: "EMA \<Rightarrow> real \<Rightarrow> EMA" where
  "EMA_update e p =
     (case ema_value e of
        None \<Rightarrow> e\<lparr>ema_value := Some p\<rparr>
      | Some v \<Rightarrow> e\<lparr>ema_value := Some (alpha e * p + (1 - alpha e) * v)\<rparr>)"

text \<open>A sequence of \<^verbatim>\<open>update\<close> calls on one calculator.\<close>

fun EMA_updates :: "EMA \<Rightarrow> real list \<Rightarrow> EMA" where
  "EMA_updates e [] = e"
| "EMA_updates e (p # ps) = EMA_updates (EMA_update e p) ps"

section \<open>The reference strategy (main.py, ema_trend_strategy)\<close>

text \<open>
  A row of the aligned table maps column names to prices; \<^verbatim>\<open>row[name]\<close> raises
  \<^verbatim>\<open>KeyError\<close> for a column that is not there.
\<close>

type_synonym row = "(string \<times> real) list"

definition row_get :: "row \<Rightarrow> string \<Rightarrow> py_error + real" where
  "row_get r k = (case map_of r k of None \<Rightarrow> Inl KeyError | Some v \<Rightarrow> Inr v)"

text \<open>
  The dictionary \<^verbatim>\<open>ema_trend_strategy.ema_calculator\<close>. Its keys are the strings
  \<^verbatim>\<open>f"{instrument}_15m_ema_{window}"\<close> and \<^verbatim>\<open>f"{instrument}_1h_ema_{window}"\<close>; the
  model keeps the three parts of a key apart. The attribute does not exist before the
  first call: the strategy's persistent state is a \<open>calculators option\<close>.
\<close>

type_synonym ema_key = "string \<times> string \<times> int"

type_synonym calculators = "ema_key \<Rightarrow> EMA option"

text \<open>Lines 19-23: the loop that fills the dictionary on the first call.\<close>

fun init_calculators :: "string \<Rightarrow> int list \<Rightarrow> calculators \<Rightarrow> py_error + calculators" where
  "init_calculators instrument [] c = Inr c"
| "init_calculators instrument (w # ws) c =
     (case EMA_init w of
        Inl err \<Rightarrow> Inl err
      | Inr a \<Rightarrow>
          (case EMA_init w of
             Inl err \<Rightarrow> Inl err
           | Inr b \<Rightarrow>
               init_calculators instrument ws
                 (c((instrument, ''15m'', w) \<mapsto> a, (instrument, ''1h'', w) \<mapsto> b))))"

definition calc_update :: "calculators \<Rightarrow> ema_key \<Rightarrow> real \<Rightarrow> py_error + calculators" where
  "calc_update c k p =
     (case c k of None \<Rightarrow> Inl KeyError | Some e \<Rightarrow> Inr (c(k \<mapsto> EMA_update e p)))"

text \<open>Lines 26-28: every calculator of the window list is fed the 15m close.\<close>

fun update_calculators :: "string \<Rightarrow> int list \<Rightarrow> real \<Rightarrow> calculators \<Rightarrow> py_error + calculators" where
  "update_calculators instrument [] p c = Inr c"
| "update_calculators instrument (w # ws) p c =
     (case calc_update c (instrument, ''15m'', w) p of
        Inl err \<Rightarrow> Inl err
      | Inr c1 \<Rightarrow>
          (case calc_update c1 (instrument, ''1h'', w) p of
             Inl err \<Rightarrow> Inl err
           | Inr c2 \<Rightarrow> update_calculators instrument ws p c2))"

definition calc_value :: "calculators \<Rightarrow> ema_key \<Rightarrow> py_error + real option" where
  "calc_value c k = (case c k of None \<Rightarrow> Inl KeyError | Some e \<Rightarrow> Inr (ema_value e))"

datatype trend = Bull | Bear

text \<open>
  Lines 37-42 and 45-50: \<open>a > b\<close> is bull, \<open>a < b\<close> is bear, otherwise \<^verbatim>\<open>None\<close>.
  Comparing with a calculator that was never updated (value \<^verbatim>\<open>None\<close>) raises.
\<close>

definition classify_trend :: "real option \<Rightarrow> real option \<Rightarrow> py_error + trend option" where
  "classify_trend a b =
     (case a of
        None \<Rightarrow> Inl TypeError
      | Some x \<Rightarrow>
          (case b of
             None \<Rightarrow> Inl TypeError
           | Some y \<Rightarrow> Inr (if x > y then Some Bull else if x < y then Some Bear else None)))"

text \<open>The local variables of lines 53-58, which every call creates afresh.\<close>

record locals =
  l_signal :: "string option"
  l_position :: real
  l_stop_loss :: "real option"
  l_take_profit :: "real option"
  l_highest_price :: "real option"
  l_lowest_price :: "real option"

definition init_locals :: locals where
  "init_locals =
     \<lparr>l_signal = None, l_position = 0, l_stop_loss = None, l_take_profit = None,
      l_highest_price = None, l_lowest_price = None\<rparr>"

text \<open>Lines 62-79: the \<^verbatim>\<open>if/elif/elif\<close> chain under aligned bull trends.\<close>

definition bull_logic :: "locals \<Rightarrow> real \<Rightarrow> py_error + locals" where
  "bull_logic l price =
     (if l_position l = 0 then
        Inr (l\<lparr>l_signal := Some ''buy'', l_position := 0.2,
               l_stop_loss := Some (price * 0.9), l_highest_price := Some price\<rparr>)
      else if l_position l = 0.2 then
        (case l_highest_price l of
           None \<Rightarrow> Inl TypeError
         | Some h \<Rightarrow>
             if price > h * 1.1 then
               Inr (l\<lparr>l_signal := Some ''buy'', l_position := 0.5,
                      l_stop_loss := Some (h * 0.9), l_highest_price := Some price\<rparr>)
             else Inr l)
      else if l_position l = 0.5 then
        (case l_highest_price l of
           None \<Rightarrow> Inl TypeError
         | Some h \<Rightarrow>
             if price > h * 1.2 then
               Inr (l\<lparr>l_signal := Some ''buy'', l_position := 1.0,
                      l_stop_loss := Some (h * 0.9), l_highest_price := Some price\<rparr>)
             else Inr l)
      else Inr l)"

text \<open>Lines 83-100: the same chain under aligned bear trends.\<close>

definition bear_logic :: "locals \<Rightarrow> real \<Rightarrow> py_error + locals" where
  "bear_logic l price =
     (if l_position l = 0 then
        Inr (l\<lparr>l_signal := Some ''sell'', l_position := 0.2,
               l_stop_loss := Some (price * 1.1), l_lowest_price := Some price\<rparr>)
      else if l_position l = 0.2 then
        (case l_lowest_price l of
           None \<Rightarrow> Inl TypeError
         | Some lo \<Rightarrow>
             if price < lo * 0.9 then
               Inr (l\<lparr>l_signal := Some ''sell'', l_position := 0.5,
                      l_stop_loss := Some (lo * 1.1), l_lowest_price := Some price\<rparr>)
             else Inr l)
      else if l_position l = 0.5 then
        (case l_lowest_price l of
           None \<Rightarrow> Inl TypeError
         | Some lo \<Rightarrow>
             if price < lo * 0.8 then
               Inr (l\<lparr>l_signal := Some ''sell'', l_position := 1.0,
                      l_stop_loss := Some (lo * 1.1), l_lowest_price := Some price\<rparr>)
             else Inr l)
      else Inr l)"

text \<open>
  Lines 103-104: \<^verbatim>\<open>if position > 0 and price <= stop_loss: signal = 'close'\<close>. The
  comparison is only evaluated when \<open>position > 0\<close>.
\<close>

definition stop_check :: "locals \<Rightarrow> real \<Rightarrow> py_error + locals" where
  "stop_check l price =
     (if l_position l > 0 then
        (case l_stop_loss l of
           None \<Rightarrow> Inl TypeError
         | Some s \<Rightarrow> if price \<le> s then Inr (l\<lparr>l_signal := Some ''close''\<rparr>) else Inr l)
      else Inr l)"

text \<open>Lines 60-104, started from given values of the local variables.\<close>

definition position_logic :: "locals \<Rightarrow> trend option \<Rightarrow> trend option \<Rightarrow> real \<Rightarrow> py_error + locals" where
  "position_logic l major_trend minor_trend price =
     (case (if major_trend = Some Bull \<and> minor_trend = Some Bull then bull_logic l price
            else if major_trend = Some Bear \<and> minor_trend = Some Bear then bear_logic l price
            else Inr l) of
        Inl err \<Rightarrow> Inl err
      | Inr l' \<Rightarrow> stop_check l' price)"

text \<open>
  Lines 16-50: read the price, create the calculators on the first call, update them,
  read the four values and classify the two trends. The result carries the price, the
  major and the minor trend and the calculators as the call leaves them.
\<close>

definition strategy_trends ::
  "calculators option \<Rightarrow> row \<Rightarrow> string \<Rightarrow> int list \<Rightarrow>
     py_error + (real \<times> trend option \<times> trend option \<times> calculators)" where
  "strategy_trends st row instrument ema_windows =
     (case row_get row (instrument @ ''_15m_close'') of
        Inl err \<Rightarrow> Inl err
      | Inr price \<Rightarrow>
     (case (case st of None \<Rightarrow> init_calculators instrument ema_windows Map.empty
                     | Some c \<Rightarrow> Inr c) of
        Inl err \<Rightarrow> Inl err
      | Inr c0 \<Rightarrow>
     (case update_calculators instrument ema_windows price c0 of
        Inl err \<Rightarrow> Inl err
      | Inr c \<Rightarrow>
     (case calc_value c (instrument, ''15m'', 5) of
        Inl err \<Rightarrow> Inl err
      | Inr ema_5_15m \<Rightarrow>
     (case calc_value c (instrument, ''15m'', 12) of
        Inl err \<Rightarrow> Inl err
      | Inr ema_12_15m \<Rightarrow>
     (case calc_value c (instrument, ''1h'', 12) of
        Inl err \<Rightarrow> Inl err
      | Inr ema_12_1h \<Rightarrow>
     (case calc_value c (instrument, ''1h'', 20) of
        Inl err \<Rightarrow> Inl err
      | Inr ema_20_1h \<Rightarrow>
     (case classify_trend ema_12_1h ema_20_1h of
        Inl err \<Rightarrow> Inl err
      | Inr major_trend \<Rightarrow>
     (case classify_trend ema_5_15m ema_12_15m of
        Inl err \<Rightarrow> Inl err
      | Inr minor_trend \<Rightarrow> Inr (price, major_trend, minor_trend, c))))))))))"

text \<open>
  The whole body of \<^verbatim>\<open>ema_trend_strategy\<close>, returning the local variables as they are
  at the \<^verbatim>\<open>return\<close> together with the persistent calculators. The parameter
  \<^verbatim>\<open>initial_balance\<close> is never read and is left out.
\<close>

definition ema_trend_strategy_locals ::
  "calculators option \<Rightarrow> row \<Rightarrow> string \<Rightarrow> int list \<Rightarrow> py_error + (locals \<times> calculators option)" where
  "ema_trend_strategy_locals st row instrument ema_windows =
     (case strategy_trends st row instrument ema_windows of
        Inl err \<Rightarrow> Inl err
      | Inr (price, major_trend, minor_trend, c) \<Rightarrow>
          (case position_logic init_locals major_trend minor_trend price of
             Inl err \<Rightarrow> Inl err
           | Inr l \<Rightarrow> Inr (l, Some c)))"

text \<open>\<^verbatim>\<open>ema_trend_strategy\<close>: what the caller gets is \<^verbatim>\<open>signal\<close> alone.\<close>

definition ema_trend_strategy ::
  "calculators option \<Rightarrow> row \<Rightarrow> string \<Rightarrow> int list \<Rightarrow> py_error + (string option \<times> calculators option)" where
  "ema_trend_strategy st row instrument ema_windows =
     (case ema_trend_strategy_locals st row instrument ema_windows of
        Inl err \<Rightarrow> Inl err
      | Inr (l, st') \<Rightarrow> Inr (l_signal l, st'))"

section \<open>StrategyEngine (modules.py)\<close>

text \<open>
  A strategy is called as \<^verbatim>\<open>strategy_function(row, **strategy_params)\<close>; its
  persistent state is threaded through the calls. The table is a list of rows with
  their timestamps, in index order.
\<close>

type_synonym ('p, 's) strategy = "'p \<Rightarrow> 's \<Rightarrow> row \<Rightarrow> py_error + (string option \<times> 's)"

record ('p, 's) StrategyEngine =
  strategy_function :: "('p, 's) strategy option"

definition load_strategy ::
  "('p, 's) StrategyEngine \<Rightarrow> ('p, 's) strategy \<Rightarrow> ('p, 's) StrategyEngine" where
  "load_strategy eng f = eng\<lparr>strategy_function := Some f\<rparr>"

text \<open>
  The loop of \<^verbatim>\<open>run_strategy\<close> (lines 72-75); \<^verbatim>\<open>if signal:\<close> drops \<^verbatim>\<open>None\<close> and
  the empty string.
\<close>

fun run_rows ::
  "('p, 's) strategy \<Rightarrow> 'p \<Rightarrow> (nat \<times> row) list \<Rightarrow> 's \<Rightarrow> (nat \<times> string) list \<Rightarrow>
     py_error + ((nat \<times> string) list \<times> 's)" where
  "run_rows f params [] st signals = Inr (signals, st)"
| "run_rows f params ((idx, row) # rest) st signals =
     (case f params st row of
        Inl err \<Rightarrow> Inl err
      | Inr (signal, st') \<Rightarrow>
          run_rows f params rest st'
            (case signal of
               None \<Rightarrow> signals
             | Some sg \<Rightarrow> if sg = [] then signals else signals @ [(idx, sg)]))"

text \<open>
  \<^verbatim>\<open>data.loc[start_time:end_time]\<close> is an operation of pandas, not code of this
  repository. On a strictly increasing index (what the outer join of time series
  gives) it keeps the rows whose timestamp lies in the closed interval. On any other
  index pandas may raise \<^verbatim>\<open>KeyError\<close> or slice by the positions of the labels: that
  behaviour is the parameter \<open>other_index\<close>.
\<close>

definition loc_slice ::
  "((nat \<times> row) list \<Rightarrow> nat \<Rightarrow> nat \<Rightarrow> py_error + (nat \<times> row) list) \<Rightarrow>
   (nat \<times> row) list \<Rightarrow> nat \<Rightarrow> nat \<Rightarrow> py_error + (nat \<times> row) list" where
  "loc_slice other_index data start_time end_time =
     (if sorted_wrt (<) (map fst data) then
        Inr (filter (\<lambda>(t, r). start_time \<le> t \<and> t \<le> end_time) data)
      else other_index data start_time end_time)"

text \<open>
  \<^verbatim>\<open>run_strategy\<close>: the check for a loaded strategy comes first (line 67), then the
  slice (line 71), then the loop.
\<close>

definition run_strategy ::
  "('p, 's) StrategyEngine \<Rightarrow>
   ((nat \<times> row) list \<Rightarrow> nat \<Rightarrow> nat \<Rightarrow> py_error + (nat \<times> row) list) \<Rightarrow>
   (nat \<times> row) list \<Rightarrow> nat \<Rightarrow> nat \<Rightarrow> 'p \<Rightarrow> 's \<Rightarrow>
     py_error + ((nat \<times> string) list \<times> 's)" where
  "run_strategy eng other_index data start_time end_time params st =
     (case strategy_function eng of
        None \<Rightarrow> Inl ValueError
      | Some f \<Rightarrow>
          (case loc_slice other_index data start_time end_time of
             Inl err \<Rightarrow> Inl err
           | Inr filtered_data \<Rightarrow> run_rows f params filtered_data st []))"

text \<open>
  The strategy as main.py loads it: \<^verbatim>\<open>instrument\<close> is the only keyword argument, so
  \<^verbatim>\<open>ema_windows\<close> has its default \<^verbatim>\<open>[5, 12, 20]\<close>.
\<close>

definition ema_engine :: "(string, calculators option) StrategyEngine" where
  "ema_engine =
     load_strategy \<lparr>strategy_function = None\<rparr>
       (\<lambda>instrument st row. ema_trend_strategy st row instrument [5, 12, 20])"

text \<open>
  For the proofs: \<open>fresh_EMA w\<close> is the calculator \<^verbatim>\<open>EMA(w)\<close> builds, and
  \<open>holds_calculators c instr E\<close> says that the dictionary \<open>c\<close> holds, for the instrument,
  both periods and the windows 5, 12 and 20, the calculators \<open>E period window\<close>.
\<close>

definition fresh_EMA :: "int \<Rightarrow> EMA" where
  "fresh_EMA w = \<lparr>window = w, alpha = 2 / real_of_int (w + 1), ema_value = None\<rparr>"

definition holds_calculators :: "calculators \<Rightarrow> string \<Rightarrow> (string \<Rightarrow> int \<Rightarrow> EMA) \<Rightarrow> bool" where
  "holds_calculators c instr E =
     (\<forall>per\<in>{''15m'', ''1h''}. \<forall>w\<in>{5, 12, 20}. c (instr, per, w) = Some (E per w))"

section \<open>DataHandler (modules.py)\<close>

text \<open>
  \<^verbatim>\<open>merge_data\<close> works on pandas frames. The data feed's \<^verbatim>\<open>load_local_data\<close> and the
  pandas operations \<^verbatim>\<open>add_prefix\<close> and \<^verbatim>\<open>join(how='outer')\<close> are not code of this
  repository: they are parameters of the model, over any type \<open>'df\<close> of frames. What
  is modelled is the double loop and the variable \<^verbatim>\<open>merged_df\<close>, which starts as
  \<^verbatim>\<open>None\<close>.
\<close>

fun merge_periods ::
  "(string \<Rightarrow> string \<Rightarrow> py_error + 'df) \<Rightarrow> (string \<Rightarrow> 'df \<Rightarrow> 'df) \<Rightarrow>
   ('df \<Rightarrow> 'df \<Rightarrow> py_error + 'df) \<Rightarrow> string \<Rightarrow> string list \<Rightarrow> 'df option \<Rightarrow>
     py_error + 'df option" where
  "merge_periods load_local_data add_prefix join instr [] merged_df = Inr merged_df"
| "merge_periods load_local_data add_prefix join instr (period # ps) merged_df =
     (case load_local_data instr period of
        Inl err \<Rightarrow> Inl err
      | Inr df0 \<Rightarrow>
          (let df = add_prefix (instr @ ''_'' @ period @ ''_'') df0 in
           case merged_df of
             None \<Rightarrow> merge_periods load_local_data add_prefix join instr ps (Some df)
           | Some m \<Rightarrow>
               (case join m df of
                  Inl err \<Rightarrow> Inl err
                | Inr j \<Rightarrow> merge_periods load_local_data add_prefix join instr ps (Some j))))"

fun merge_instruments ::
  "(string \<Rightarrow> string \<Rightarrow> py_error + 'df) \<Rightarrow> (string \<Rightarrow> 'df \<Rightarrow> 'df) \<Rightarrow>
   ('df \<Rightarrow> 'df \<Rightarrow> py_error + 'df) \<Rightarrow> string list \<Rightarrow> string list \<Rightarrow> 'df option \<Rightarrow>
     py_error + 'df option" where
  "merge_instruments load_local_data add_prefix join [] periods merged_df = Inr merged_df"
| "merge_instruments load_local_data add_prefix join (instr # is) periods merged_df =
     (case merge_periods load_local_data add_prefix join instr periods merged_df of
        Inl err \<Rightarrow> Inl err
      | Inr m \<Rightarrow> merge_instruments load_local_data add_prefix join is periods m)"

definition merge_data ::
  "(string \<Rightarrow> string \<Rightarrow> py_error + 'df) \<Rightarrow> (string \<Rightarrow> 'df \<Rightarrow> 'df) \<Rightarrow>
   ('df \<Rightarrow> 'df \<Rightarrow> py_error + 'df) \<Rightarrow> string list \<Rightarrow> string list \<Rightarrow> py_error + 'df option" where
  "merge_data load_local_data add_prefix join instruments periods =
     merge_instruments load_local_data add_prefix join instruments periods None"

section \<open>TradeManager (modules.py)\<close>

text \<open>
  The dictionary that \<^verbatim>\<open>execute_trade\<close> builds. \<^verbatim>\<open>take_profit\<close>, \<^verbatim>\<open>highest_price\<close>
  and \<^verbatim>\<open>lowest_price\<close> can hold \<^verbatim>\<open>None\<close>. The key \<^verbatim>\<open>close_price\<close> is read by
  \<^verbatim>\<open>generate_report\<close> and written nowhere in the repository: \<open>close_price = None\<close>
  stands for a dictionary without that key.
\<close>

record trade =
  instrument :: string
  time :: nat
  signal :: string
  price :: real
  stop_loss :: real
  take_profit :: "real option"
  highest_price :: "real option"
  lowest_price :: "real option"
  close_price :: "real option"

text \<open>
  \<^verbatim>\<open>execute_trade\<close> appends the new dictionary to \<^verbatim>\<open>trades_log\<close> and stores the same
  object in \<^verbatim>\<open>positions\<close>; \<^verbatim>\<open>update_stop_loss\<close> later writes into it. To keep this
  sharing, the dictionaries live in a store \<open>objects\<close> (the address of an object is its
  index, allocation appends) and both \<open>trades_log\<close> and \<open>positions\<close> hold addresses.
  \<open>positions\<close> is a Python dict: an association list in insertion order.
\<close>

record TradeManager =
  objects :: "trade list"
  trades_log :: "nat list"
  positions :: "(string \<times> nat) list"

definition TradeManager_init :: TradeManager where
  "TradeManager_init = \<lparr>objects = [], trades_log = [], positions = []\<rparr>"

text \<open>Lines 96-105: the dictionary of a trade.\<close>

definition new_trade :: "string \<Rightarrow> nat \<Rightarrow> real \<Rightarrow> string \<Rightarrow> trade" where
  "new_trade sg current_time p instr =
     \<lparr>instrument = instr, time = current_time, signal = sg, price = p,
      stop_loss = (if sg = ''buy'' then p * 0.9 else p * 1.1),
      take_profit = None,
      highest_price = (if sg = ''buy'' then Some p else None),
      lowest_price = (if sg = ''sell'' then Some p else None),
      close_price = None\<rparr>"

definition execute_trade :: "TradeManager \<Rightarrow> string \<Rightarrow> nat \<Rightarrow> real \<Rightarrow> string \<Rightarrow> TradeManager" where
  "execute_trade tm sg current_time p instr =
     (let a = length (objects tm) in
      tm\<lparr>objects := objects tm @ [new_trade sg current_time p instr],
         trades_log := trades_log tm @ [a],
         positions := AList.update instr a (positions tm)\<rparr>)"

text \<open>Lines 117-122, on one position; \<^verbatim>\<open>max(None, x)\<close> raises.\<close>

definition update_position :: "trade \<Rightarrow> real \<Rightarrow> py_error + trade" where
  "update_position pos current_price =
     (if signal pos = ''buy'' then
        (case highest_price pos of
           None \<Rightarrow> Inl TypeError
         | Some h \<Rightarrow>
             Inr (pos\<lparr>highest_price := Some (max h current_price),
                      stop_loss := max h current_price * 0.9\<rparr>))
      else if signal pos = ''sell'' then
        (case lowest_price pos of
           None \<Rightarrow> Inl TypeError
         | Some lo \<Rightarrow>
             Inr (pos\<lparr>lowest_price := Some (min lo current_price),
                      stop_loss := min lo current_price * 1.1\<rparr>))
      else Inr pos)"

text \<open>
  The loop of \<^verbatim>\<open>update_stop_loss\<close> over \<^verbatim>\<open>self.positions.items()\<close>. An address of
  \<open>positions\<close> always lies inside the store (lemma \<open>reachable_inv\<close> below).
\<close>

fun update_positions :: "(string \<times> nat) list \<Rightarrow> row \<Rightarrow> trade list \<Rightarrow> py_error + trade list" where
  "update_positions [] price_data objs = Inr objs"
| "update_positions ((instr, a) # rest) price_data objs =
     (case row_get price_data (instr @ ''_1m_close'') of
        Inl err \<Rightarrow> Inl err
      | Inr current_price \<Rightarrow>
          (case update_position (objs ! a) current_price of
             Inl err \<Rightarrow> Inl err
           | Inr pos \<Rightarrow> update_positions rest price_data (objs[a := pos])))"

definition update_stop_loss :: "TradeManager \<Rightarrow> nat \<Rightarrow> row \<Rightarrow> py_error + TradeManager" where
  "update_stop_loss tm current_time price_data =
     (case update_positions (positions tm) price_data (objects tm) of
        Inl err \<Rightarrow> Inl err
      | Inr objs \<Rightarrow> Inr (tm\<lparr>objects := objs\<rparr>))"

text \<open>A sequence of \<^verbatim>\<open>update_stop_loss\<close> calls, one per (timestamp, row).\<close>

fun update_stop_loss_seq :: "TradeManager \<Rightarrow> (nat \<times> row) list \<Rightarrow> py_error + TradeManager" where
  "update_stop_loss_seq tm [] = Inr tm"
| "update_stop_loss_seq tm ((t, price_data) # rest) =
     (case update_stop_loss tm t price_data of
        Inl err \<Rightarrow> Inl err
      | Inr tm' \<Rightarrow> update_stop_loss_seq tm' rest)"

text \<open>The trade log as a reader sees it: the dictionaries behind the addresses.\<close>

definition log_entries :: "TradeManager \<Rightarrow> trade list" where
  "log_entries tm = map (\<lambda>a. objects tm ! a) (trades_log tm)"

text \<open>The dictionary that is the current position of an instrument, if it has one.\<close>

definition position_of :: "TradeManager \<Rightarrow> string \<Rightarrow> trade option" where
  "position_of tm instr =
     (case map_of (positions tm) instr of None \<Rightarrow> None | Some a \<Rightarrow> Some (objects tm ! a))"

text \<open>
  The states a TradeManager can be in: a new one, and what \<^verbatim>\<open>execute_trade\<close> and a
  returning \<^verbatim>\<open>update_stop_loss\<close> make of one.
\<close>

inductive reachable :: "TradeManager \<Rightarrow> bool" where
  reachable_init: "reachable TradeManager_init"
| reachable_execute: "reachable tm \<Longrightarrow> reachable (execute_trade tm sg t p instr)"
| reachable_update: "reachable tm \<Longrightarrow> update_stop_loss tm t price_data = Inr tm' \<Longrightarrow> reachable tm'"

text \<open>
  Two predicates for the proofs. A position dictionary is \<open>tracked\<close> when its stop-loss
  is the one its extreme price gives (what \<^verbatim>\<open>execute_trade\<close> writes and
  \<^verbatim>\<open>update_stop_loss\<close> rewrites). \<open>tm_inv\<close> holds of every reachable TradeManager:
  the keys and the addresses of \<open>positions\<close> are distinct, every address lies in the
  store, and every position is tracked.
\<close>

definition tracked :: "trade \<Rightarrow> bool" where
  "tracked tr =
     (if signal tr = ''buy'' then
        (case highest_price tr of None \<Rightarrow> False | Some h \<Rightarrow> stop_loss tr = h * 0.9)
      else if signal tr = ''sell'' then
        (case lowest_price tr of None \<Rightarrow> False | Some lo \<Rightarrow> stop_loss tr = lo * 1.1)
      else True)"

definition tm_inv :: "TradeManager \<Rightarrow> bool" where
  "tm_inv tm =
     (distinct (map fst (positions tm)) \<and> distinct (map snd (positions tm)) \<and>
      list_all (\<lambda>(i, a). a < length (objects tm) \<and> tracked (objects tm ! a)) (positions tm) \<and>
      list_all (\<lambda>a. a < length (objects tm)) (trades_log tm))"


section \<open>ResultAnalyzer (modules.py)\<close>

record report =
  initial_balance :: real
  final_balance :: real
  total_return :: real

text \<open>
  \<^verbatim>\<open>generate_report\<close> is the one place where a claim names an exact number, so its
  arithmetic is modelled as Python does it: every float operation is computed exactly
  and its result rounded to binary64, to the nearest value with ties to even. The
  rounding function is a parameter \<open>rnd\<close> of the model: \<open>round_double\<close> is Python's, the
  identity is exact arithmetic.

  \<open>binary_exponent x\<close> is the exponent \<open>e\<close> with \<open>2^e \<le> |x| < 2^(e+1)\<close>, kept in the
  range -1022 to 1023 of binary64 (below 2^-1022 the spacing of the subnormal numbers
  is that of exponent -1022). A value is rounded to a multiple of \<open>2^(e-52)\<close>. Results
  of magnitude 2^1024 and more (\<^verbatim>\<open>inf\<close> in Python) are outside the model.
\<close>

definition round_half_even :: "real \<Rightarrow> int" where
  "round_half_even x =
     (let f = \<lfloor>x\<rfloor> in
      if x - of_int f < 1 / 2 then f
      else if x - of_int f > 1 / 2 then f + 1
      else if even f then f else f + 1)"

fun exponent_up :: "nat \<Rightarrow> real \<Rightarrow> int" where
  "exponent_up 0 x = 0"
| "exponent_up (Suc n) x = (if x < 2 then 0 else exponent_up n (x / 2) + 1)"

fun exponent_down :: "nat \<Rightarrow> real \<Rightarrow> int" where
  "exponent_down 0 x = 0"
| "exponent_down (Suc n) x = (if 1 \<le> x then 0 else exponent_down n (x * 2) - 1)"

definition binary_exponent :: "real \<Rightarrow> int" where
  "binary_exponent x =
     (if 1 \<le> \<bar>x\<bar> then exponent_up 1023 \<bar>x\<bar> else exponent_down 1022 \<bar>x\<bar>)"

definition round_double :: "real \<Rightarrow> real" where
  "round_double x =
     (let ulp = 2 powi (binary_exponent x - 52) in
      of_int (round_half_even (x / ulp)) * ulp)"

text \<open>
  The loop of lines 145-149: \<^verbatim>\<open>balance *= (trade['close_price'] / trade['price'])\<close>
  is a division and then a multiplication. \<^verbatim>\<open>trade['close_price']\<close> is evaluated
  before the division, so a missing key raises first; dividing by a zero float raises
  \<^verbatim>\<open>ZeroDivisionError\<close>.
\<close>

fun compound_balance :: "(real \<Rightarrow> real) \<Rightarrow> real \<Rightarrow> trade list \<Rightarrow> py_error + real" where
  "compound_balance rnd balance [] = Inr balance"
| "compound_balance rnd balance (tr # rest) =
     (if signal tr = ''buy'' then
        (case close_price tr of
           None \<Rightarrow> Inl KeyError
         | Some c \<Rightarrow>
             if price tr = 0 then Inl ZeroDivisionError
             else compound_balance rnd (rnd (balance * rnd (c / price tr))) rest)
      else if signal tr = ''sell'' then
        (case close_price tr of
           None \<Rightarrow> Inl KeyError
         | Some c \<Rightarrow>
             if c = 0 then Inl ZeroDivisionError
             else compound_balance rnd (rnd (balance * rnd (price tr / c))) rest)
      else compound_balance rnd balance rest)"

text \<open>
  \<^verbatim>\<open>generate_report\<close>: the empty dictionary \<^verbatim>\<open>{}\<close> of an empty log is \<open>None\<close>;
  \<^verbatim>\<open>(balance - initial_balance) / initial_balance\<close> is a subtraction and then a
  division.
\<close>

definition generate_report :: "(real \<Rightarrow> real) \<Rightarrow> trade list \<Rightarrow> py_error + report option" where
  "generate_report rnd trades =
     (if trades = [] then Inr None
      else
        (case compound_balance rnd 100000 trades of
           Inl err \<Rightarrow> Inl err
         | Inr balance \<Rightarrow>
             Inr (Some \<lparr>initial_balance = 100000, final_balance = balance,
                        total_return = rnd (rnd (balance - 100000) / 100000)\<rparr>)))"

text \<open>
  The return factor of one trade as the spec words it: close price over entry price for
  a long trade, entry price over close price for a short trade, and 1 for any other
  entry of the log.
\<close>

definition spec_factor :: "trade \<Rightarrow> real" where
  "spec_factor tr =
     (case close_price tr of
        None \<Rightarrow> 1
      | Some c \<Rightarrow>
          if signal tr = ''buy'' then c / price tr
          else if signal tr = ''sell'' then price tr / c
          else 1)"

section \<open>Theorems\<close>

lemma EMA_update_alpha: "alpha (EMA_update e p) = alpha e"
  by (simp add: EMA_update_def split: option.split)

lemma EMA_updates_alpha: "alpha (EMA_updates e ps) = alpha e"
  by (induction ps arbitrary: e) (simp_all add: EMA_update_alpha)

lemma EMA_updates_snoc: "EMA_updates e (ps @ [p]) = EMA_update (EMA_updates e ps) p"
  by (induction ps arbitrary: e) simp_all

lemma EMA_update_value_Some: "\<exists>v. ema_value (EMA_update e p) = Some v"
  by (simp add: EMA_update_def split: option.split)

text \<open>
  C6. For an EMA built with window \<open>w\<close> (the constructor succeeds unless \<open>w = -1\<close>),
  \<open>alpha = 2 / (w + 1)\<close>; after the first update the value is the first price; and every
  later update with price \<open>p\<close> turns the previous value \<open>v\<close> into
  \<open>alpha * p + (1 - alpha) * v\<close>, whatever prices came before.
\<close>

theorem EMA_recurrence:
  assumes "EMA_init w = Inr e"
  shows "alpha e = 2 / real_of_int (w + 1) \<and>
         ema_value (EMA_updates e [p0]) = Some p0 \<and>
         (\<exists>v. ema_value (EMA_updates e (p0 # ps)) = Some v \<and>
           ema_value (EMA_updates e (p0 # ps @ [p])) =
             Some (2 / real_of_int (w + 1) * p + (1 - 2 / real_of_int (w + 1)) * v))"
proof -
  from assms have e: "e = \<lparr>window = w, alpha = 2 / real_of_int (w + 1), ema_value = None\<rparr>"
    by (auto simp: EMA_init_def split: if_splits)
  have a: "alpha e = 2 / real_of_int (w + 1)"
    by (simp add: e)
  have first: "ema_value (EMA_updates e [p0]) = Some p0"
    by (simp add: e EMA_update_def)
  define f where "f = EMA_updates e (p0 # ps)"
  have fa: "alpha f = 2 / real_of_int (w + 1)"
    unfolding f_def by (simp only: EMA_updates_alpha a)
  have "\<exists>v. ema_value f = Some v"
  proof (cases ps rule: rev_cases)
    case Nil
    then show ?thesis by (simp add: f_def e EMA_update_def)
  next
    case (snoc qs q)
    then have "f = EMA_update (EMA_updates e (p0 # qs)) q"
      unfolding f_def using EMA_updates_snoc [of e "p0 # qs" q] by simp
    then show ?thesis using EMA_update_value_Some by simp
  qed
  then obtain v where v: "ema_value f = Some v" ..
  have "EMA_updates e (p0 # ps @ [p]) = EMA_update f p"
    unfolding f_def using EMA_updates_snoc [of e "p0 # ps" p] by simp
  then have "ema_value (EMA_updates e (p0 # ps @ [p])) =
      Some (2 / real_of_int (w + 1) * p + (1 - 2 / real_of_int (w + 1)) * v)"
    using v fa by (simp add: EMA_update_def)
  with v have "\<exists>v. ema_value (EMA_updates e (p0 # ps)) = Some v \<and>
           ema_value (EMA_updates e (p0 # ps @ [p])) =
             Some (2 / real_of_int (w + 1) * p + (1 - 2 / real_of_int (w + 1)) * v)"
    unfolding f_def by blast
  with a first show ?thesis by blast
qed

theorem EMA_recurrence_witness:
  "EMA_init 5 = Inr \<lparr>window = 5, alpha = 1 / 3, ema_value = None\<rparr> \<and>
   alpha \<lparr>window = 5, alpha = 1 / 3, ema_value = None\<rparr> = 2 / real_of_int (5 + 1) \<and>
   ema_value (EMA_updates \<lparr>window = 5, alpha = 1 / 3, ema_value = None\<rparr> [100]) = Some 100 \<and>
   (\<exists>v. ema_value (EMA_updates \<lparr>window = 5, alpha = 1 / 3, ema_value = None\<rparr> (100 # [111])) = Some v \<and>
     ema_value (EMA_updates \<lparr>window = 5, alpha = 1 / 3, ema_value = None\<rparr> (100 # [111] @ [121])) =
       Some (2 / real_of_int (5 + 1) * 121 + (1 - 2 / real_of_int (5 + 1)) * v))"
proof -
  have h: "EMA_init 5 = Inr \<lparr>window = 5, alpha = 1 / 3, ema_value = None\<rparr>"
    by (simp add: EMA_init_def)
  show ?thesis
    using h EMA_recurrence [OF h, of 100 "[111]" 121] by blast
qed

subsection \<open>Evaluating the strategy and the engine\<close>

lemmas strategy_defs = ema_trend_strategy_def
     ema_trend_strategy_locals_def strategy_trends_def row_get_def EMA_init_def calc_update_def
     EMA_update_def calc_value_def classify_trend_def position_logic_def init_locals_def bull_logic_def
     bear_logic_def stop_check_def

lemmas engine_defs = run_strategy_def loc_slice_def ema_engine_def load_strategy_def

text \<open>Whatever the row and the state, a call ends with position 0 or 0.2.\<close>

lemma position_logic_fresh:
  assumes "position_logic init_locals major minor p = Inr l"
  shows "l_position l = 0 \<or> l_position l = 0.2"
  using assms
  by (auto simp: position_logic_def init_locals_def bull_logic_def bear_logic_def stop_check_def
      split: if_splits)

lemma strategy_never_scaled:
  assumes "ema_trend_strategy_locals st row instr ws = Inr (l, st')"
  shows "l_position l = 0 \<or> l_position l = 0.2"
proof -
  from assms obtain pr ma mi c where
    "position_logic init_locals ma mi pr = Inr l"
    by (auto simp: ema_trend_strategy_locals_def split: sum.splits)
  then show ?thesis by (rule position_logic_fresh)
qed

text \<open>
  C1 (the code does not do this). On the bull-aligned closes 100, 111, 123 the second
  row opens a long position (signal \<open>buy\<close>, extreme 111), and the third close exceeds
  that extreme times 1.1 (123 > 122.1): the claim expects a scale-in to 50%. The code
  keeps \<open>position\<close> and \<open>highest_price\<close> in local variables that every call sets to 0
  and \<^verbatim>\<open>None\<close> (lines 53-58), so the tier-2 branch of line 68 is never entered: the
  third call is again a first entry and ends with position 0.2, not 0.5.
\<close>

theorem tier_two_never_reached:
  "\<exists>st2 l st3.
     run_strategy ema_engine (\<lambda>d s e. Inl KeyError)
       [(1, [(''X_15m_close'', 100)]), (2, [(''X_15m_close'', 111)])] 1 3 ''X'' None =
       Inr ([(2, ''buy'')], st2) \<and>
     ema_trend_strategy_locals st2 [(''X_15m_close'', 123)] ''X'' [5, 12, 20] = Inr (l, st3) \<and>
     l_signal l = Some ''buy'' \<and> l_position l = 0.2 \<and>
     l_stop_loss l = Some 110.7 \<and> l_highest_price l = Some 123 \<and>
     (123::real) > 111 * 1.1 \<and>
     run_strategy ema_engine (\<lambda>d s e. Inl KeyError)
       [(1, [(''X_15m_close'', 100)]), (2, [(''X_15m_close'', 111)]), (3, [(''X_15m_close'', 123)])]
       1 3 ''X'' None = Inr ([(2, ''buy''), (3, ''buy'')], st3)"
  by (simp add: engine_defs strategy_defs)

text \<open>
  C2 (the code does not do this for shorts). The stop check of line 103 is
  \<open>price \<le> stop_loss\<close> for both sides. On the bear-aligned path 100, 90 the second row
  opens a short with stop-loss 99; the price 90 is below the stop (it has not crossed it
  adversely, 90 \<ge> 99 is false), and the strategy still returns \<open>close\<close>.
\<close>

theorem short_stop_fires_below_stop:
  "\<exists>st1 l st2.
     ema_trend_strategy None [(''X_15m_close'', 100)] ''X'' [5, 12, 20] = Inr (None, st1) \<and>
     ema_trend_strategy_locals st1 [(''X_15m_close'', 90)] ''X'' [5, 12, 20] = Inr (l, st2) \<and>
     l_signal l = Some ''close'' \<and> l_position l = 0.2 \<and> l_lowest_price l = Some 90 \<and>
     l_stop_loss l = Some 99 \<and> (90::real) < 99 \<and>
     ema_trend_strategy st1 [(''X_15m_close'', 90)] ''X'' [5, 12, 20] = Inr (Some ''close'', st2)"
  by (simp add: strategy_defs)

text \<open>
  C10. On every row where both trends are bear and the close is positive, the strategy
  returns \<open>close\<close>, never \<open>sell\<close>: the short entry sets the stop-loss to
  \<open>price * 1.1\<close>, and the final check \<open>price \<le> stop_loss\<close> then holds.
\<close>

theorem bear_rows_close:
  assumes "strategy_trends st row instr ws = Inr (p, Some Bear, Some Bear, c)"
    and "0 < p"
  shows "ema_trend_strategy st row instr ws = Inr (Some ''close'', Some c)"
  using assms
  by (simp add: ema_trend_strategy_def ema_trend_strategy_locals_def position_logic_def
      init_locals_def bear_logic_def stop_check_def)

theorem bear_rows_close_witness:
  "\<exists>st1 c. ema_trend_strategy None [(''X_15m_close'', 100)] ''X'' [5, 12, 20] = Inr (None, st1) \<and>
     strategy_trends st1 [(''X_15m_close'', 90)] ''X'' [5, 12, 20] = Inr (90, Some Bear, Some Bear, c) \<and>
     (0::real) < 90 \<and>
     ema_trend_strategy st1 [(''X_15m_close'', 90)] ''X'' [5, 12, 20] = Inr (Some ''close'', Some c)"
proof -
  have "\<exists>st1. ema_trend_strategy None [(''X_15m_close'', 100)] ''X'' [5, 12, 20] = Inr (None, st1) \<and>
     (\<exists>c. strategy_trends st1 [(''X_15m_close'', 90)] ''X'' [5, 12, 20] = Inr (90, Some Bear, Some Bear, c))"
    by (simp add: strategy_defs)
  then obtain st1 c where
    a: "ema_trend_strategy None [(''X_15m_close'', 100)] ''X'' [5, 12, 20] = Inr (None, st1)" and
    b: "strategy_trends st1 [(''X_15m_close'', 90)] ''X'' [5, 12, 20] = Inr (90, Some Bear, Some Bear, c)"
    by blast
  have pos: "(0::real) < 90" by simp
  from a b pos bear_rows_close [OF b pos] show ?thesis by blast
qed

subsection \<open>Two runs of the engine\<close>

lemma EMA_updates_append: "EMA_updates e (xs @ ys) = EMA_updates (EMA_updates e xs) ys"
  by (induction xs arbitrary: e) simp_all

lemma position_logic_init_total: "\<exists>l. position_logic init_locals ma mi p = Inr l"
  by (simp add: position_logic_def init_locals_def bull_logic_def bear_logic_def stop_check_def)

lemma classify_trend_updated:
  "\<exists>tr. classify_trend (ema_value (EMA_update a p)) (ema_value (EMA_update b p)) = Inr tr"
  by (simp add: classify_trend_def EMA_update_def split: option.split)

lemma update_calculators_default:
  assumes "holds_calculators c0 instr E"
  shows "\<exists>c. update_calculators instr [5, 12, 20] p c0 = Inr c \<and>
             holds_calculators c instr (\<lambda>per w. EMA_update (E per w) p)"
  using assms
  by (simp add: holds_calculators_def calc_update_def)

lemma init_calculators_default:
  "\<exists>c. init_calculators instr [5, 12, 20] Map.empty = Inr c \<and>
       holds_calculators c instr (\<lambda>per w. fresh_EMA w)"
  by (simp add: holds_calculators_def EMA_init_def fresh_EMA_def)

lemma strategy_call_holds:
  assumes "holds_calculators c0 instr E"
    and "row_get row (instr @ ''_15m_close'') = Inr p"
  shows "\<exists>sg c. ema_trend_strategy (Some c0) row instr [5, 12, 20] = Inr (sg, Some c) \<and>
            holds_calculators c instr (\<lambda>per w. EMA_update (E per w) p)"
proof -
  from update_calculators_default [OF assms(1), of p] obtain c where
    u: "update_calculators instr [5, 12, 20] p c0 = Inr c" and
    h: "holds_calculators c instr (\<lambda>per w. EMA_update (E per w) p)"
    by blast
  from h have v:
    "calc_value c (instr, ''15m'', 5) = Inr (ema_value (EMA_update (E ''15m'' 5) p))"
    "calc_value c (instr, ''15m'', 12) = Inr (ema_value (EMA_update (E ''15m'' 12) p))"
    "calc_value c (instr, ''1h'', 12) = Inr (ema_value (EMA_update (E ''1h'' 12) p))"
    "calc_value c (instr, ''1h'', 20) = Inr (ema_value (EMA_update (E ''1h'' 20) p))"
    by (simp_all add: holds_calculators_def calc_value_def)
  obtain ma where ma: "classify_trend (ema_value (EMA_update (E ''1h'' 12) p))
      (ema_value (EMA_update (E ''1h'' 20) p)) = Inr ma"
    using classify_trend_updated by blast
  obtain mi where mi: "classify_trend (ema_value (EMA_update (E ''15m'' 5) p))
      (ema_value (EMA_update (E ''15m'' 12) p)) = Inr mi"
    using classify_trend_updated by blast
  have t: "strategy_trends (Some c0) row instr [5, 12, 20] = Inr (p, ma, mi, c)"
    using assms(2) u v ma mi by (simp add: strategy_trends_def)
  obtain l where l: "position_logic init_locals ma mi p = Inr l"
    using position_logic_init_total by blast
  have "ema_trend_strategy (Some c0) row instr [5, 12, 20] = Inr (l_signal l, Some c)"
    using t l by (simp add: ema_trend_strategy_def ema_trend_strategy_locals_def)
  with h show ?thesis by blast
qed

lemma strategy_call_fresh:
  assumes "ema_trend_strategy None row instr [5, 12, 20] = Inr (sg, st')"
  shows "\<exists>p c. row_get row (instr @ ''_15m_close'') = Inr p \<and> st' = Some c \<and>
            holds_calculators c instr (\<lambda>per w. EMA_update (fresh_EMA w) p)"
proof -
  from assms obtain p where p: "row_get row (instr @ ''_15m_close'') = Inr p"
    by (auto simp: ema_trend_strategy_def ema_trend_strategy_locals_def strategy_trends_def
        split: sum.splits)
  from init_calculators_default [of instr] obtain c0 where
    i: "init_calculators instr [5, 12, 20] Map.empty = Inr c0" and
    h: "holds_calculators c0 instr (\<lambda>per w. fresh_EMA w)"
    by blast
  have same: "ema_trend_strategy None row instr [5, 12, 20] =
      ema_trend_strategy (Some c0) row instr [5, 12, 20]"
    unfolding ema_trend_strategy_def ema_trend_strategy_locals_def strategy_trends_def
    by (simp only: i option.case sum.case)
  from strategy_call_holds [OF h p] obtain sg' c where
    "ema_trend_strategy (Some c0) row instr [5, 12, 20] = Inr (sg', Some c)"
    "holds_calculators c instr (\<lambda>per w. EMA_update (fresh_EMA w) p)"
    by blast
  with same assms p show ?thesis by auto
qed

lemma strategy_call_some:
  assumes "holds_calculators c0 instr E"
    and "ema_trend_strategy (Some c0) row instr [5, 12, 20] = Inr (sg, st')"
  shows "\<exists>p c. row_get row (instr @ ''_15m_close'') = Inr p \<and> st' = Some c \<and>
            holds_calculators c instr (\<lambda>per w. EMA_update (E per w) p)"
proof -
  from assms(2) obtain p where p: "row_get row (instr @ ''_15m_close'') = Inr p"
    by (auto simp: ema_trend_strategy_def ema_trend_strategy_locals_def strategy_trends_def
        split: sum.splits)
  from strategy_call_holds [OF assms(1) p] assms(2) p show ?thesis by auto
qed

lemma run_rows_holds:
  assumes "holds_calculators c0 instr E"
    and "run_rows (\<lambda>instrument st row. ema_trend_strategy st row instrument [5, 12, 20])
           instr rows (Some c0) acc = Inr (sigs, st')"
  shows "\<exists>ps c. map (\<lambda>(t, r). row_get r (instr @ ''_15m_close'')) rows = map Inr ps \<and>
            st' = Some c \<and>
            holds_calculators c instr (\<lambda>per w. EMA_updates (E per w) ps)"
  using assms
proof (induction rows arbitrary: c0 E acc)
  case Nil
  then show ?case by auto
next
  case (Cons x rows)
  obtain idx row where x: "x = (idx, row)" by (cases x)
  from Cons.prems(2) x obtain sg st1 acc1 where
    call: "ema_trend_strategy (Some c0) row instr [5, 12, 20] = Inr (sg, st1)" and
    rest: "run_rows (\<lambda>instrument st row. ema_trend_strategy st row instrument [5, 12, 20])
           instr rows st1 acc1 = Inr (sigs, st')"
    by (auto split: sum.splits)
  from strategy_call_some [OF Cons.prems(1) call] obtain p c1 where
    p: "row_get row (instr @ ''_15m_close'') = Inr p" and st1: "st1 = Some c1" and
    h1: "holds_calculators c1 instr (\<lambda>per w. EMA_update (E per w) p)"
    by blast
  from Cons.IH [OF h1 rest [unfolded st1]] obtain ps c where
    m: "map (\<lambda>(t, r). row_get r (instr @ ''_15m_close'')) rows = map Inr ps" and
    c: "st' = Some c" and
    h: "holds_calculators c instr (\<lambda>per w. EMA_updates (EMA_update (E per w) p) ps)"
    by blast
  have "map (\<lambda>(t, r). row_get r (instr @ ''_15m_close'')) (x # rows) = map Inr (p # ps)"
    using m p x by simp
  moreover have "holds_calculators c instr (\<lambda>per w. EMA_updates (E per w) (p # ps))"
    using h by simp
  ultimately show ?case using c by blast
qed

lemma run_rows_fresh:
  assumes "rows \<noteq> []"
    and "run_rows (\<lambda>instrument st row. ema_trend_strategy st row instrument [5, 12, 20])
           instr rows None acc = Inr (sigs, st')"
  shows "\<exists>ps c. map (\<lambda>(t, r). row_get r (instr @ ''_15m_close'')) rows = map Inr ps \<and>
            st' = Some c \<and>
            holds_calculators c instr (\<lambda>per w. EMA_updates (fresh_EMA w) ps)"
proof -
  from assms(1) obtain x rest where rows: "rows = x # rest" by (cases rows) auto
  obtain idx row where x: "x = (idx, row)" by (cases x)
  from assms(2) rows x obtain sg st1 acc1 where
    call: "ema_trend_strategy None row instr [5, 12, 20] = Inr (sg, st1)" and
    rest: "run_rows (\<lambda>instrument st row. ema_trend_strategy st row instrument [5, 12, 20])
           instr rest st1 acc1 = Inr (sigs, st')"
    by (auto split: sum.splits)
  from strategy_call_fresh [OF call] obtain p c1 where
    p: "row_get row (instr @ ''_15m_close'') = Inr p" and st1: "st1 = Some c1" and
    h1: "holds_calculators c1 instr (\<lambda>per w. EMA_update (fresh_EMA w) p)"
    by blast
  from run_rows_holds [OF h1 rest [unfolded st1]] obtain ps c where
    m: "map (\<lambda>(t, r). row_get r (instr @ ''_15m_close'')) rest = map Inr ps" and
    c: "st' = Some c" and
    h: "holds_calculators c instr (\<lambda>per w. EMA_updates (EMA_update (fresh_EMA w) p) ps)"
    by blast
  have "map (\<lambda>(t, r). row_get r (instr @ ''_15m_close'')) rows = map Inr (p # ps)"
    using m p x rows by simp
  moreover have "holds_calculators c instr (\<lambda>per w. EMA_updates (fresh_EMA w) (p # ps))"
    using h by simp
  ultimately show ?thesis using c by blast
qed

text \<open>
  C5 (as amended). Neither the engine nor the strategy resets the indicator state
  between two runs. Let the first run of \<^verbatim>\<open>ema_trend_strategy\<close> start with the
  strategy's state absent, on a table whose selected rows are not empty, and let a
  second run on the same table follow. Both runs return only if every selected row has
  the close column, with closes \<open>ps\<close>. After the first run each of the six EMA
  calculators (windows 5, 12, 20 for both periods) holds the EMA of \<open>ps\<close>; the second
  run feeds its rows into the same calculators, so after it each holds the EMA of \<open>ps\<close>
  followed by \<open>ps\<close> again.
\<close>

theorem indicator_state_carries_over:
  assumes "loc_slice other_index data start_time end_time = Inr rows" and "rows \<noteq> []"
    and "run_strategy ema_engine other_index data start_time end_time instr None = Inr (sigs1, st1)"
    and "run_strategy ema_engine other_index data start_time end_time instr st1 = Inr (sigs2, st2)"
  shows "\<exists>ps c1 c2.
           map (\<lambda>(t, r). row_get r (instr @ ''_15m_close'')) rows = map Inr ps \<and>
           st1 = Some c1 \<and> st2 = Some c2 \<and>
           (\<forall>per\<in>{''15m'', ''1h''}. \<forall>w\<in>{5, 12, 20}.
              c1 (instr, per, w) = Some (EMA_updates (fresh_EMA w) ps) \<and>
              c2 (instr, per, w) = Some (EMA_updates (fresh_EMA w) (ps @ ps)))"
proof -
  let ?f = "\<lambda>instrument st row. ema_trend_strategy st row instrument [5, 12, 20]"
  from assms(1,3) have r1: "run_rows ?f instr rows None [] = Inr (sigs1, st1)"
    by (simp add: run_strategy_def ema_engine_def load_strategy_def)
  from assms(1,4) have r2: "run_rows ?f instr rows st1 [] = Inr (sigs2, st2)"
    by (simp add: run_strategy_def ema_engine_def load_strategy_def)
  from run_rows_fresh [OF assms(2) r1] obtain ps c1 where
    m: "map (\<lambda>(t, r). row_get r (instr @ ''_15m_close'')) rows = map Inr ps" and
    s1: "st1 = Some c1" and
    h1: "holds_calculators c1 instr (\<lambda>per w. EMA_updates (fresh_EMA w) ps)"
    by blast
  from run_rows_holds [OF h1 r2 [unfolded s1]] obtain qs c2 where
    m2: "map (\<lambda>(t, r). row_get r (instr @ ''_15m_close'')) rows = map Inr qs" and
    s2: "st2 = Some c2" and
    h2: "holds_calculators c2 instr (\<lambda>per w. EMA_updates (EMA_updates (fresh_EMA w) ps) qs)"
    by blast
  from m m2 have "map Inr qs = (map Inr ps :: (py_error + real) list)" by simp
  then have "qs = ps" by (simp add: inj_map_eq_map)
  with h2 have h2': "holds_calculators c2 instr (\<lambda>per w. EMA_updates (fresh_EMA w) (ps @ ps))"
    by (simp add: EMA_updates_append)
  from m s1 s2 h1 h2' show ?thesis
    unfolding holds_calculators_def by blast
qed

theorem indicator_state_carries_over_witness:
  "loc_slice (\<lambda>d s e. Inl KeyError)
     [(1, [(''X_15m_close'', 100)]), (2, [(''X_15m_close'', 111)])] 1 2 =
     Inr [(1, [(''X_15m_close'', 100)]), (2, [(''X_15m_close'', 111)])] \<and>
   [(1::nat, [(''X_15m_close'', 100::real)]), (2, [(''X_15m_close'', 111)])] \<noteq> [] \<and>
   (\<exists>st1 st2.
      run_strategy ema_engine (\<lambda>d s e. Inl KeyError)
        [(1, [(''X_15m_close'', 100)]), (2, [(''X_15m_close'', 111)])] 1 2 ''X'' None =
        Inr ([(2, ''buy'')], st1) \<and>
      run_strategy ema_engine (\<lambda>d s e. Inl KeyError)
        [(1, [(''X_15m_close'', 100)]), (2, [(''X_15m_close'', 111)])] 1 2 ''X'' st1 =
        Inr ([(1, ''buy''), (2, ''buy'')], st2) \<and>
      (\<exists>ps c1 c2.
         map (\<lambda>(t, r). row_get r (''X'' @ ''_15m_close''))
           [(1::nat, [(''X_15m_close'', 100)]), (2, [(''X_15m_close'', 111)])] = map Inr ps \<and>
         st1 = Some c1 \<and> st2 = Some c2 \<and>
         (\<forall>per\<in>{''15m'', ''1h''}. \<forall>w\<in>{5, 12, 20}.
            c1 (''X'', per, w) = Some (EMA_updates (fresh_EMA w) ps) \<and>
            c2 (''X'', per, w) = Some (EMA_updates (fresh_EMA w) (ps @ ps)))))"
proof -
  let ?t = "[(1::nat, [(''X_15m_close'', 100::real)]), (2, [(''X_15m_close'', 111)])]"
  have a: "loc_slice (\<lambda>d s e. Inl KeyError) ?t 1 2 = Inr ?t"
    by (simp add: loc_slice_def)
  have b: "?t \<noteq> []" by simp
  have "\<exists>st1 st2.
      run_strategy ema_engine (\<lambda>d s e. Inl KeyError) ?t 1 2 ''X'' None = Inr ([(2, ''buy'')], st1) \<and>
      run_strategy ema_engine (\<lambda>d s e. Inl KeyError) ?t 1 2 ''X'' st1 =
        Inr ([(1, ''buy''), (2, ''buy'')], st2)"
    by (simp add: engine_defs strategy_defs)
  then obtain st1 st2 where
    r1: "run_strategy ema_engine (\<lambda>d s e. Inl KeyError) ?t 1 2 ''X'' None = Inr ([(2, ''buy'')], st1)" and
    r2: "run_strategy ema_engine (\<lambda>d s e. Inl KeyError) ?t 1 2 ''X'' st1 =
        Inr ([(1, ''buy''), (2, ''buy'')], st2)"
    by blast
  note c = indicator_state_carries_over [OF a b r1 r2]
  from r1 r2 c have "\<exists>st1 st2.
      run_strategy ema_engine (\<lambda>d s e. Inl KeyError) ?t 1 2 ''X'' None = Inr ([(2, ''buy'')], st1) \<and>
      run_strategy ema_engine (\<lambda>d s e. Inl KeyError) ?t 1 2 ''X'' st1 =
        Inr ([(1, ''buy''), (2, ''buy'')], st2) \<and>
      (\<exists>ps c1 c2.
         map (\<lambda>(t, r). row_get r (''X'' @ ''_15m_close'')) ?t = map Inr ps \<and>
         st1 = Some c1 \<and> st2 = Some c2 \<and>
         (\<forall>per\<in>{''15m'', ''1h''}. \<forall>w\<in>{5, 12, 20}.
            c1 (''X'', per, w) = Some (EMA_updates (fresh_EMA w) ps) \<and>
            c2 (''X'', per, w) = Some (EMA_updates (fresh_EMA w) (ps @ ps))))"
    by (intro exI [of _ st1] exI [of _ st2] conjI)
  with a b show ?thesis by (intro conjI)
qed

text \<open>
  C5 as stated fails: on the table with closes 100, 111 the first run (state absent)
  signals \<open>buy\<close> at row 2 only; the second run on the same table, started from the state
  the first one left, signals \<open>buy\<close> at rows 1 and 2.
\<close>

theorem second_run_differs_counterexample:
  "\<exists>st1 st2.
     run_strategy ema_engine (\<lambda>d s e. Inl KeyError)
       [(1, [(''X_15m_close'', 100)]), (2, [(''X_15m_close'', 111)])] 1 2 ''X'' None =
       Inr ([(2, ''buy'')], st1) \<and>
     run_strategy ema_engine (\<lambda>d s e. Inl KeyError)
       [(1, [(''X_15m_close'', 100)]), (2, [(''X_15m_close'', 111)])] 1 2 ''X'' st1 =
       Inr ([(1, ''buy''), (2, ''buy'')], st2) \<and>
     [(2::nat, ''buy'')] \<noteq> [(1, ''buy''), (2, ''buy'')]"
  by (simp add: engine_defs strategy_defs)

subsection \<open>DataHandler\<close>

text \<open>
  C9 (as amended). With an empty instrument list or an empty period list \<^verbatim>\<open>merge_data\<close>
  never enters the loop body and returns \<^verbatim>\<open>None\<close>; it raises nothing, whatever the
  data feed and the frame operations are.
\<close>

theorem merge_data_empty:
  "merge_data load_local_data add_prefix join [] periods = Inr None \<and>
   merge_data load_local_data add_prefix join instruments [] = Inr None"
proof -
  have "merge_instruments load_local_data add_prefix join instruments [] m = Inr m" for m
    by (induction instruments) simp_all
  then show ?thesis by (simp add: merge_data_def)
qed

text \<open>
  C9 as stated fails: for a data feed that serves one bar for every pair, both calls
  return \<open>Inr None\<close>, not an error.
\<close>

theorem merge_data_empty_counterexample:
  "merge_data (\<lambda>i p. Inr [(1::nat, [(''close'', 100::real)])])
       (\<lambda>pre df. map (\<lambda>(t, r). (t, map (\<lambda>(c, v). (pre @ c, v)) r)) df)
       (\<lambda>a b. Inr (a @ b)) [] [''15m'', ''1h''] = Inr None \<and>
   merge_data (\<lambda>i p. Inr [(1::nat, [(''close'', 100::real)])])
       (\<lambda>pre df. map (\<lambda>(t, r). (t, map (\<lambda>(c, v). (pre @ c, v)) r)) df)
       (\<lambda>a b. Inr (a @ b)) [''000300.XSHG''] [] = Inr None"
  by (simp add: merge_data_def)

subsection \<open>TradeManager\<close>

lemmas tm_defs = execute_trade_def Let_def TradeManager_init_def new_trade_def update_stop_loss_def
  update_position_def row_get_def position_of_def log_entries_def

text \<open>
  C8 (as amended). \<^verbatim>\<open>execute_trade\<close> has no check for an existing position: every call
  appends one new dictionary to the log and makes it the instrument's position, with
  stop-loss and extreme computed from the new price; the positions of other instruments
  stay as they are.
\<close>

theorem execute_trade_appends:
  "trades_log (execute_trade tm sg t p instr) = trades_log tm @ [length (objects tm)] \<and>
   objects (execute_trade tm sg t p instr) = objects tm @ [new_trade sg t p instr] \<and>
   map_of (positions (execute_trade tm sg t p instr)) = (map_of (positions tm))(instr \<mapsto> length (objects tm)) \<and>
   position_of (execute_trade tm sg t p instr) instr = Some (new_trade sg t p instr)"
  by (simp add: execute_trade_def Let_def update_conv' position_of_def)

text \<open>
  C8 as stated fails: a second \<open>buy\<close> for an instrument that has a position makes the
  log two entries long and replaces the position (stop-loss 94.5 instead of 90).
\<close>

theorem second_enter_counterexample:
  "log_entries (execute_trade TradeManager_init ''buy'' 1 100 ''X'') = [new_trade ''buy'' 1 100 ''X''] \<and>
   log_entries (execute_trade (execute_trade TradeManager_init ''buy'' 1 100 ''X'') ''buy'' 2 105 ''X'')
     = [new_trade ''buy'' 1 100 ''X'', new_trade ''buy'' 2 105 ''X''] \<and>
   position_of (execute_trade TradeManager_init ''buy'' 1 100 ''X'') ''X'' = Some (new_trade ''buy'' 1 100 ''X'') \<and>
   position_of (execute_trade (execute_trade TradeManager_init ''buy'' 1 100 ''X'') ''buy'' 2 105 ''X'') ''X''
     = Some (new_trade ''buy'' 2 105 ''X'') \<and>
   stop_loss (new_trade ''buy'' 1 100 ''X'') = 90 \<and> stop_loss (new_trade ''buy'' 2 105 ''X'') = 94.5"
  by (simp add: execute_trade_def Let_def TradeManager_init_def log_entries_def position_of_def new_trade_def)

text \<open>The invariant of the reachable states.\<close>

lemma tracked_new_trade: "tracked (new_trade sg t p instr)"
  by (simp add: tracked_def new_trade_def)

lemma update_position_tracked:
  assumes "update_position pos p = Inr pos'"
  shows "tracked pos' \<and> signal pos' = signal pos \<and> instrument pos' = instrument pos \<and>
         time pos' = time pos \<and> price pos' = price pos \<and> take_profit pos' = take_profit pos \<and>
         close_price pos' = close_price pos"
  using assms
  by (auto simp: update_position_def tracked_def split: if_splits option.splits)

lemma update_position_buy:
  assumes "update_position pos p = Inr pos'" and "signal pos = ''buy''" and "tracked pos"
  shows "\<exists>h. highest_price pos = Some h \<and> stop_loss pos = h * 0.9 \<and>
             stop_loss pos' = max h p * 0.9 \<and> stop_loss pos \<le> stop_loss pos'"
  using assms
  by (auto simp: update_position_def tracked_def split: if_splits option.splits)

lemma update_position_sell:
  assumes "update_position pos p = Inr pos'" and "signal pos = ''sell''" and "tracked pos"
  shows "\<exists>lo. lowest_price pos = Some lo \<and> stop_loss pos = lo * 1.1 \<and>
             stop_loss pos' = min lo p * 1.1 \<and> stop_loss pos' \<le> stop_loss pos"
  using assms
  by (auto simp: update_position_def tracked_def split: if_splits option.splits)

lemma update_positions_frame:
  assumes "update_positions ps pd objs = Inr objs'"
    and "distinct (map snd ps)"
    and "\<forall>(i, a) \<in> set ps. a < length objs"
  shows "length objs' = length objs \<and>
         (\<forall>a. a \<notin> snd ` set ps \<longrightarrow> objs' ! a = objs ! a) \<and>
         (\<forall>(i, a) \<in> set ps. \<exists>p. row_get pd (i @ ''_1m_close'') = Inr p \<and>
              update_position (objs ! a) p = Inr (objs' ! a))"
  using assms
proof (induction ps arbitrary: objs)
  case Nil
  then show ?case by simp
next
  case (Cons x ps)
  obtain i a where x: "x = (i, a)" by (cases x)
  from Cons.prems(1) x obtain p pos where
    p: "row_get pd (i @ ''_1m_close'') = Inr p" and
    pos: "update_position (objs ! a) p = Inr pos" and
    rest: "update_positions ps pd (objs[a := pos]) = Inr objs'"
    by (auto split: sum.splits)
  from Cons.prems(2) x have d: "distinct (map snd ps)" and an: "a \<notin> snd ` set ps"
    by auto
  from Cons.prems(3) x have al: "a < length objs" and bl: "\<forall>(j, b) \<in> set ps. b < length (objs[a := pos])"
    by auto
  from Cons.IH [OF rest d bl] have
    len: "length objs' = length objs" and
    fr: "\<forall>b. b \<notin> snd ` set ps \<longrightarrow> objs' ! b = (objs[a := pos]) ! b" and
    up: "\<forall>(j, b) \<in> set ps. \<exists>q. row_get pd (j @ ''_1m_close'') = Inr q \<and>
              update_position ((objs[a := pos]) ! b) q = Inr (objs' ! b)"
    by auto
  have 1: "\<forall>b. b \<notin> snd ` set (x # ps) \<longrightarrow> objs' ! b = objs ! b"
    using fr x by auto
  have here: "objs' ! a = pos"
    using fr an al by simp
  have 2: "\<forall>(j, b) \<in> set (x # ps). \<exists>q. row_get pd (j @ ''_1m_close'') = Inr q \<and>
              update_position (objs ! b) q = Inr (objs' ! b)"
  proof -
    have "\<exists>q. row_get pd (j @ ''_1m_close'') = Inr q \<and>
              update_position (objs ! b) q = Inr (objs' ! b)" if jb: "(j, b) \<in> set (x # ps)" for j b
    proof (cases "(j, b) = x")
      case True
      with x p pos here show ?thesis by auto
    next
      case False
      with jb have in_ps: "(j, b) \<in> set ps" by simp
      then have "b \<noteq> a" using an by force
      with up in_ps show ?thesis by fastforce
    qed
    then show ?thesis by blast
  qed
  from len 1 2 show ?case by blast
qed

lemma set_AList_update: "set (AList.update k v al) \<subseteq> insert (k, v) (set al)"
  by (induction al) auto

lemma distinct_snd_AList_update:
  "distinct (map snd al) \<Longrightarrow> v \<notin> snd ` set al \<Longrightarrow> distinct (map snd (AList.update k v al))"
proof (induction al)
  case Nil
  then show ?case by simp
next
  case (Cons x al)
  obtain j b where x: "x = (j, b)" by (cases x)
  show ?case
  proof (cases "j = k")
    case True
    with Cons.prems x show ?thesis by auto
  next
    case False
    have "b \<notin> snd ` set (AList.update k v al)"
      using set_AList_update [of k v al] Cons.prems x by force
    with False Cons x show ?thesis by auto
  qed
qed

lemma tm_inv_init: "tm_inv TradeManager_init"
  by (simp add: tm_inv_def TradeManager_init_def)

lemma tm_inv_execute:
  assumes "tm_inv tm"
  shows "tm_inv (execute_trade tm sg t p instr)"
proof -
  let ?n = "length (objects tm)"
  from assms have
    df: "distinct (map fst (positions tm))" and ds: "distinct (map snd (positions tm))" and
    pa: "\<forall>(i, a) \<in> set (positions tm). a < ?n \<and> tracked (objects tm ! a)" and
    la: "\<forall>a \<in> set (trades_log tm). a < ?n"
    by (auto simp: tm_inv_def list_all_iff)
  have fresh: "?n \<notin> snd ` set (positions tm)"
    using pa by force
  have 1: "distinct (map fst (AList.update instr ?n (positions tm)))"
    using df by (simp add: distinct_update)
  have 2: "distinct (map snd (AList.update instr ?n (positions tm)))"
    using ds fresh by (rule distinct_snd_AList_update)
  have 3: "\<forall>(i, a) \<in> set (AList.update instr ?n (positions tm)).
      a < length (objects tm @ [new_trade sg t p instr]) \<and>
      tracked ((objects tm @ [new_trade sg t p instr]) ! a)"
  proof -
    have "a < length (objects tm @ [new_trade sg t p instr]) \<and>
      tracked ((objects tm @ [new_trade sg t p instr]) ! a)"
      if "(i, a) \<in> set (AList.update instr ?n (positions tm))" for i a
    proof -
      from that set_AList_update [of instr ?n "positions tm"]
      have "(i, a) = (instr, ?n) \<or> (i, a) \<in> set (positions tm)" by auto
      then show ?thesis
      proof
        assume "(i, a) = (instr, ?n)"
        then show ?thesis by (simp add: tracked_new_trade)
      next
        assume "(i, a) \<in> set (positions tm)"
        with pa have "a < ?n \<and> tracked (objects tm ! a)" by auto
        then show ?thesis by (simp add: nth_append)
      qed
    qed
    then show ?thesis by blast
  qed
  have 4: "\<forall>a \<in> set (trades_log tm @ [?n]). a < length (objects tm @ [new_trade sg t p instr])"
    using la by auto
  from 1 2 3 4 show ?thesis
    by (simp add: tm_inv_def execute_trade_def Let_def list_all_iff)
qed

lemma update_stop_loss_frame:
  assumes "tm_inv tm" and "update_stop_loss tm t pd = Inr tm'"
  shows "positions tm' = positions tm \<and> trades_log tm' = trades_log tm \<and>
         length (objects tm') = length (objects tm) \<and>
         (\<forall>a. a \<notin> snd ` set (positions tm) \<longrightarrow> objects tm' ! a = objects tm ! a) \<and>
         (\<forall>(i, a) \<in> set (positions tm). \<exists>p. row_get pd (i @ ''_1m_close'') = Inr p \<and>
              update_position (objects tm ! a) p = Inr (objects tm' ! a))"
proof -
  from assms(2) obtain objs where
    u: "update_positions (positions tm) pd (objects tm) = Inr objs" and
    tm': "tm' = tm\<lparr>objects := objs\<rparr>"
    by (auto simp: update_stop_loss_def split: sum.splits)
  from assms(1) have ds: "distinct (map snd (positions tm))" and
    pa: "\<forall>(i, a) \<in> set (positions tm). a < length (objects tm)"
    by (auto simp: tm_inv_def list_all_iff)
  from update_positions_frame [OF u ds pa] tm' show ?thesis by simp
qed

lemma tm_inv_update:
  assumes "tm_inv tm" and "update_stop_loss tm t pd = Inr tm'"
  shows "tm_inv tm'"
proof -
  note fr = update_stop_loss_frame [OF assms]
  from assms(1) have
    df: "distinct (map fst (positions tm))" and ds: "distinct (map snd (positions tm))" and
    la: "\<forall>a \<in> set (trades_log tm). a < length (objects tm)" and
    pa: "\<forall>(i, a) \<in> set (positions tm). a < length (objects tm)"
    by (auto simp: tm_inv_def list_all_iff)
  have "a < length (objects tm') \<and> tracked (objects tm' ! a)" if "(i, a) \<in> set (positions tm)" for i a
  proof -
    from fr that obtain p where "update_position (objects tm ! a) p = Inr (objects tm' ! a)"
      by fastforce
    then have "tracked (objects tm' ! a)" using update_position_tracked by blast
    moreover have "a < length (objects tm')" using fr pa that by auto
    ultimately show ?thesis by simp
  qed
  then have "\<forall>(i, a) \<in> set (positions tm'). a < length (objects tm') \<and> tracked (objects tm' ! a)"
    using fr by auto
  with df ds la fr show ?thesis
    by (simp add: tm_inv_def list_all_iff)
qed

lemma reachable_inv: "reachable tm \<Longrightarrow> tm_inv tm"
  by (induction rule: reachable.induct) (auto intro: tm_inv_init tm_inv_execute tm_inv_update)

lemma position_of_lookup:
  assumes "tm_inv tm"
  shows "position_of tm instr = Some pos \<longleftrightarrow>
         (\<exists>a. (instr, a) \<in> set (positions tm) \<and> pos = objects tm ! a)"
proof -
  from assms have "distinct (map fst (positions tm))" by (simp add: tm_inv_def)
  then have m: "map_of (positions tm) instr = Some a \<longleftrightarrow> (instr, a) \<in> set (positions tm)" for a
    by simp
  show ?thesis
  proof (cases "map_of (positions tm) instr")
    case None
    then have "\<And>a. (instr, a) \<notin> set (positions tm)" using m by simp
    with None show ?thesis by (simp add: position_of_def)
  next
    case (Some b)
    then have "(instr, a) \<in> set (positions tm) \<longleftrightarrow> a = b" for a
      using m [of a] by auto
    with Some show ?thesis by (auto simp: position_of_def)
  qed
qed

lemma update_stop_loss_step:
  assumes inv: "tm_inv tm" and u: "update_stop_loss tm t pd = Inr tm'"
    and pos: "position_of tm instr = Some pos"
  shows "\<exists>pos' p. position_of tm' instr = Some pos' \<and> row_get pd (instr @ ''_1m_close'') = Inr p \<and>
           update_position pos p = Inr pos'"
proof -
  note fr = update_stop_loss_frame [OF inv u]
  from pos inv obtain a where a: "(instr, a) \<in> set (positions tm)" and p: "pos = objects tm ! a"
    using position_of_lookup by blast
  from fr a obtain q where q: "row_get pd (instr @ ''_1m_close'') = Inr q"
    "update_position (objects tm ! a) q = Inr (objects tm' ! a)" by fastforce
  have "tm_inv tm'" using inv u by (rule tm_inv_update)
  moreover have "(instr, a) \<in> set (positions tm')" using fr a by simp
  ultimately have "position_of tm' instr = Some (objects tm' ! a)"
    using position_of_lookup by blast
  with q p show ?thesis by blast
qed

lemma update_stop_loss_seq_inv:
  "tm_inv tm \<Longrightarrow> update_stop_loss_seq tm steps = Inr tm' \<Longrightarrow> tm_inv tm'"
proof (induction steps arbitrary: tm)
  case Nil
  then show ?case by simp
next
  case (Cons s steps)
  obtain t pd where s: "s = (t, pd)" by (cases s)
  from Cons.prems(2) s obtain tm1 where
    1: "update_stop_loss tm t pd = Inr tm1" and 2: "update_stop_loss_seq tm1 steps = Inr tm'"
    by (auto split: sum.splits)
  from Cons.IH [OF tm_inv_update [OF Cons.prems(1) 1] 2] show ?case .
qed

lemma update_stop_loss_seq_monotone:
  assumes "tm_inv tm" and "update_stop_loss_seq tm steps = Inr tm'"
    and "position_of tm instr = Some pos"
  shows "\<exists>pos'. position_of tm' instr = Some pos' \<and> signal pos' = signal pos \<and> tracked pos' \<and>
           (signal pos = ''buy'' \<longrightarrow> stop_loss pos \<le> stop_loss pos') \<and>
           (signal pos = ''sell'' \<longrightarrow> stop_loss pos' \<le> stop_loss pos)"
  using assms
proof (induction steps arbitrary: tm pos)
  case Nil
  from Nil.prems(1,3) have "tracked pos"
    using position_of_lookup [OF Nil.prems(1)] by (force simp: tm_inv_def list_all_iff)
  with Nil show ?case by simp
next
  case (Cons s steps)
  obtain t pd where s: "s = (t, pd)" by (cases s)
  from Cons.prems(2) s obtain tm1 where
    1: "update_stop_loss tm t pd = Inr tm1" and 2: "update_stop_loss_seq tm1 steps = Inr tm'"
    by (auto split: sum.splits)
  have tr: "tracked pos"
    using position_of_lookup [OF Cons.prems(1)] Cons.prems(1,3) by (force simp: tm_inv_def list_all_iff)
  from update_stop_loss_step [OF Cons.prems(1) 1 Cons.prems(3)] obtain pos1 p where
    p1: "position_of tm1 instr = Some pos1" and up: "update_position pos p = Inr pos1"
    by blast
  have inv1: "tm_inv tm1" using Cons.prems(1) 1 by (rule tm_inv_update)
  from Cons.IH [OF inv1 2 p1] obtain pos' where
    r: "position_of tm' instr = Some pos'" "signal pos' = signal pos1" "tracked pos'"
       "signal pos1 = ''buy'' \<longrightarrow> stop_loss pos1 \<le> stop_loss pos'"
       "signal pos1 = ''sell'' \<longrightarrow> stop_loss pos' \<le> stop_loss pos1"
    by blast
  have sg: "signal pos1 = signal pos" using up update_position_tracked by blast
  have b: "signal pos = ''buy'' \<longrightarrow> stop_loss pos \<le> stop_loss pos1"
    using update_position_buy [OF up _ tr] by blast
  have c: "signal pos = ''sell'' \<longrightarrow> stop_loss pos1 \<le> stop_loss pos"
    using update_position_sell [OF up _ tr] by blast
  from r sg b c show ?case by force
qed

text \<open>
  C3. Take a TradeManager in a reachable state and an instrument with an open position.
  Over any sequence of \<^verbatim>\<open>update_stop_loss\<close> calls that return, followed by one more
  call with price \<open>p\<close>, the stop-loss of a long position never falls: it is at least the
  starting stop-loss before the last call, and the last call sets it to
  \<open>max h p * 0.9\<close> where \<open>h\<close> is the highest price so far and the stop-loss before the call
  is \<open>h * 0.9\<close> (so it rises when \<open>p > h\<close> and stays when \<open>p \<le> h\<close>). For a short position
  the stop-loss never rises, with \<open>min lo p * 1.1\<close>.
\<close>

theorem trailing_stop_ratchet:
  assumes "reachable tm"
    and "position_of tm instr = Some pos"
    and "update_stop_loss_seq tm steps = Inr tm1"
    and "update_stop_loss tm1 t price_data = Inr tm2"
  shows "\<exists>pos1 pos2 p.
           position_of tm1 instr = Some pos1 \<and> position_of tm2 instr = Some pos2 \<and>
           row_get price_data (instr @ ''_1m_close'') = Inr p \<and>
           (signal pos = ''buy'' \<longrightarrow>
              stop_loss pos \<le> stop_loss pos1 \<and> stop_loss pos1 \<le> stop_loss pos2 \<and>
              (\<exists>h. highest_price pos1 = Some h \<and> stop_loss pos1 = h * 0.9 \<and>
                    stop_loss pos2 = max h p * 0.9)) \<and>
           (signal pos = ''sell'' \<longrightarrow>
              stop_loss pos2 \<le> stop_loss pos1 \<and> stop_loss pos1 \<le> stop_loss pos \<and>
              (\<exists>lo. lowest_price pos1 = Some lo \<and> stop_loss pos1 = lo * 1.1 \<and>
                    stop_loss pos2 = min lo p * 1.1))"
proof -
  have inv: "tm_inv tm" using assms(1) by (rule reachable_inv)
  from update_stop_loss_seq_monotone [OF inv assms(3) assms(2)] obtain pos1 where
    p1: "position_of tm1 instr = Some pos1" and sg: "signal pos1 = signal pos" and tr: "tracked pos1"
    and b1: "signal pos = ''buy'' \<longrightarrow> stop_loss pos \<le> stop_loss pos1"
    and s1: "signal pos = ''sell'' \<longrightarrow> stop_loss pos1 \<le> stop_loss pos"
    by blast
  have inv1: "tm_inv tm1" using inv assms(3) by (rule update_stop_loss_seq_inv)
  from update_stop_loss_step [OF inv1 assms(4) p1] obtain pos2 p where
    p2: "position_of tm2 instr = Some pos2" and rg: "row_get price_data (instr @ ''_1m_close'') = Inr p"
    and up: "update_position pos1 p = Inr pos2"
    by blast
  have b2: "signal pos = ''buy'' \<longrightarrow> stop_loss pos1 \<le> stop_loss pos2 \<and>
      (\<exists>h. highest_price pos1 = Some h \<and> stop_loss pos1 = h * 0.9 \<and> stop_loss pos2 = max h p * 0.9)"
    using update_position_buy [OF up _ tr] sg by auto
  have s2: "signal pos = ''sell'' \<longrightarrow> stop_loss pos2 \<le> stop_loss pos1 \<and>
      (\<exists>lo. lowest_price pos1 = Some lo \<and> stop_loss pos1 = lo * 1.1 \<and> stop_loss pos2 = min lo p * 1.1)"
    using update_position_sell [OF up _ tr] sg by auto
  from p1 p2 rg b1 s1 b2 s2 show ?thesis by blast
qed

theorem trailing_stop_ratchet_witness:
  "reachable (execute_trade TradeManager_init ''buy'' 1 100 ''X'') \<and>
   position_of (execute_trade TradeManager_init ''buy'' 1 100 ''X'') ''X'' =
     Some (new_trade ''buy'' 1 100 ''X'') \<and>
   (\<exists>tm1 tm2 pos1 pos2.
      update_stop_loss_seq (execute_trade TradeManager_init ''buy'' 1 100 ''X'')
        [(2, [(''X_1m_close'', 120)])] = Inr tm1 \<and>
      update_stop_loss tm1 3 [(''X_1m_close'', 95)] = Inr tm2 \<and>
      position_of tm1 ''X'' = Some pos1 \<and> position_of tm2 ''X'' = Some pos2 \<and>
      stop_loss (new_trade ''buy'' 1 100 ''X'') = 90 \<and>
      stop_loss pos1 = 108 \<and> stop_loss pos2 = 108 \<and>
      stop_loss (new_trade ''buy'' 1 100 ''X'') \<le> stop_loss pos1 \<and>
      stop_loss pos1 \<le> stop_loss pos2)"
proof -
  let ?tm = "execute_trade TradeManager_init ''buy'' 1 100 ''X''"
  have r: "reachable ?tm"
    by (intro reachable.intros)
  have p: "position_of ?tm ''X'' = Some (new_trade ''buy'' 1 100 ''X'')"
    by (simp add: tm_defs)
  have "\<exists>tm1. update_stop_loss_seq ?tm [(2, [(''X_1m_close'', 120)])] = Inr tm1 \<and>
      (\<exists>tm2. update_stop_loss tm1 3 [(''X_1m_close'', 95)] = Inr tm2 \<and>
         (\<exists>pos1. position_of tm1 ''X'' = Some pos1 \<and> stop_loss pos1 = 108) \<and>
         (\<exists>pos2. position_of tm2 ''X'' = Some pos2 \<and> stop_loss pos2 = 108))"
    by (simp add: tm_defs)
  then obtain tm1 tm2 pos1 pos2 where
    s1: "update_stop_loss_seq ?tm [(2, [(''X_1m_close'', 120)])] = Inr tm1" and
    s2: "update_stop_loss tm1 3 [(''X_1m_close'', 95)] = Inr tm2" and
    p1: "position_of tm1 ''X'' = Some pos1" "stop_loss pos1 = 108" and
    p2: "position_of tm2 ''X'' = Some pos2" "stop_loss pos2 = 108"
    by blast
  have sg: "signal (new_trade ''buy'' 1 100 ''X'') = ''buy''"
    by (simp add: new_trade_def)
  have st: "stop_loss (new_trade ''buy'' 1 100 ''X'') = 90"
    by (simp add: new_trade_def)
  from trailing_stop_ratchet [OF r p s1 s2] p1 p2 sg
  have "stop_loss (new_trade ''buy'' 1 100 ''X'') \<le> stop_loss pos1 \<and> stop_loss pos1 \<le> stop_loss pos2"
    by auto
  with r p s1 s2 p1 p2 st show ?thesis by blast
qed

text \<open>
  C4 (as amended). In a reachable state, \<^verbatim>\<open>execute_trade\<close> appends one entry to the
  trade log and leaves every earlier entry as it is. \<^verbatim>\<open>update_stop_loss\<close> keeps the
  length of the log and the instrument, time, signal, price and take_profit of every
  entry, and it leaves alone every entry that is not the current position of an
  instrument. (The entry that is a current position is the very dictionary
  \<^verbatim>\<open>update_stop_loss\<close> writes to: its stop_loss and extreme price do change.)
\<close>

theorem trade_log_append_only:
  assumes "reachable tm"
  shows "log_entries (execute_trade tm sg t p instr) = log_entries tm @ [new_trade sg t p instr] \<and>
         (update_stop_loss tm t price_data = Inr tm' \<longrightarrow>
            length (log_entries tm') = length (log_entries tm) \<and>
            map instrument (log_entries tm') = map instrument (log_entries tm) \<and>
            map time (log_entries tm') = map time (log_entries tm) \<and>
            map signal (log_entries tm') = map signal (log_entries tm) \<and>
            map price (log_entries tm') = map price (log_entries tm) \<and>
            map take_profit (log_entries tm') = map take_profit (log_entries tm) \<and>
            (\<forall>k < length (trades_log tm).
               trades_log tm ! k \<notin> snd ` set (positions tm) \<longrightarrow>
               log_entries tm' ! k = log_entries tm ! k))"
proof -
  have inv: "tm_inv tm" using assms by (rule reachable_inv)
  then have la: "\<forall>a \<in> set (trades_log tm). a < length (objects tm)"
    by (simp add: tm_inv_def list_all_iff)
  have ex: "log_entries (execute_trade tm sg t p instr) = log_entries tm @ [new_trade sg t p instr]"
    using la by (simp add: log_entries_def execute_trade_def Let_def nth_append)
  have up: "length (log_entries tm') = length (log_entries tm) \<and>
            map instrument (log_entries tm') = map instrument (log_entries tm) \<and>
            map time (log_entries tm') = map time (log_entries tm) \<and>
            map signal (log_entries tm') = map signal (log_entries tm) \<and>
            map price (log_entries tm') = map price (log_entries tm) \<and>
            map take_profit (log_entries tm') = map take_profit (log_entries tm) \<and>
            (\<forall>k < length (trades_log tm).
               trades_log tm ! k \<notin> snd ` set (positions tm) \<longrightarrow>
               log_entries tm' ! k = log_entries tm ! k)"
    if u: "update_stop_loss tm t price_data = Inr tm'"
  proof -
    note fr = update_stop_loss_frame [OF inv u]
    have same: "signal (objects tm' ! a) = signal (objects tm ! a) \<and>
        instrument (objects tm' ! a) = instrument (objects tm ! a) \<and>
        time (objects tm' ! a) = time (objects tm ! a) \<and>
        price (objects tm' ! a) = price (objects tm ! a) \<and>
        take_profit (objects tm' ! a) = take_profit (objects tm ! a)" for a
    proof (cases "a \<in> snd ` set (positions tm)")
      case True
      then obtain i where "(i, a) \<in> set (positions tm)" by force
      with fr obtain q where "update_position (objects tm ! a) q = Inr (objects tm' ! a)"
        by fastforce
      then show ?thesis using update_position_tracked by blast
    next
      case False
      with fr show ?thesis by simp
    qed
    have tl: "trades_log tm' = trades_log tm" using fr by simp
    show ?thesis
      using fr by (simp add: log_entries_def tl same)
  qed
  from ex up show ?thesis by blast
qed

theorem trade_log_append_only_witness:
  "reachable (execute_trade TradeManager_init ''buy'' 1 100 ''X'') \<and>
   log_entries (execute_trade (execute_trade TradeManager_init ''buy'' 1 100 ''X'') ''sell'' 2 120 ''Y'') =
     log_entries (execute_trade TradeManager_init ''buy'' 1 100 ''X'') @ [new_trade ''sell'' 2 120 ''Y''] \<and>
   (\<exists>tm'. update_stop_loss (execute_trade TradeManager_init ''buy'' 1 100 ''X'') 2
        [(''X_1m_close'', 120)] = Inr tm' \<and>
      length (log_entries tm') = length (log_entries (execute_trade TradeManager_init ''buy'' 1 100 ''X'')) \<and>
      map price (log_entries tm') = [100] \<and> map signal (log_entries tm') = [''buy''])"
proof -
  let ?tm = "execute_trade TradeManager_init ''buy'' 1 100 ''X''"
  have r: "reachable ?tm"
    by (intro reachable.intros)
  have "\<exists>tm'. update_stop_loss ?tm 2 [(''X_1m_close'', 120)] = Inr tm'"
    by (simp add: tm_defs)
  then obtain tm' where u: "update_stop_loss ?tm 2 [(''X_1m_close'', 120)] = Inr tm'" ..
  have mp: "map price (log_entries ?tm) = [100]"
    by (simp add: tm_defs)
  have ms: "map signal (log_entries ?tm) = [''buy'']"
    by (simp add: tm_defs)
  from trade_log_append_only [OF r, of "''sell''" 2 120 "''Y''" "[(''X_1m_close'', 120)]" tm'] u
  have a: "log_entries (execute_trade ?tm ''sell'' 2 120 ''Y'') = log_entries ?tm @ [new_trade ''sell'' 2 120 ''Y'']"
    and b: "length (log_entries tm') = length (log_entries ?tm)"
    and c: "map price (log_entries tm') = map price (log_entries ?tm)"
    and d: "map signal (log_entries tm') = map signal (log_entries ?tm)"
    by blast+
  from c mp have c': "map price (log_entries tm') = [100]" by (rule trans)
  from d ms have d': "map signal (log_entries tm') = [''buy'']" by (rule trans)
  from u b c' d' have e: "\<exists>tm'. update_stop_loss ?tm 2 [(''X_1m_close'', 120)] = Inr tm' \<and>
      length (log_entries tm') = length (log_entries ?tm) \<and>
      map price (log_entries tm') = [100] \<and> map signal (log_entries tm') = [''buy'']"
    by (intro exI [of _ tm'] conjI)
  from r a e show ?thesis by (intro conjI)
qed

text \<open>
  C4 as stated fails: after a \<open>buy\<close> at 100, one \<^verbatim>\<open>update_stop_loss\<close> at price 120
  changes the logged entry's stop_loss from 90 to 108 and its highest_price from 100 to
  120.
\<close>

theorem trade_log_mutated_counterexample:
  "log_entries (execute_trade TradeManager_init ''buy'' 1 100 ''X'') =
     [\<lparr>instrument = ''X'', time = 1, signal = ''buy'', price = 100, stop_loss = 90,
       take_profit = None, highest_price = Some 100, lowest_price = None, close_price = None\<rparr>] \<and>
   (\<exists>tm'. update_stop_loss (execute_trade TradeManager_init ''buy'' 1 100 ''X'') 2
        [(''X_1m_close'', 120)] = Inr tm' \<and>
      log_entries tm' =
        [\<lparr>instrument = ''X'', time = 1, signal = ''buy'', price = 100, stop_loss = 108,
          take_profit = None, highest_price = Some 120, lowest_price = None, close_price = None\<rparr>])"
  by (simp add: tm_defs)

subsection \<open>ResultAnalyzer\<close>

text \<open>The four roundings of the report for one long trade from 100 to 110.\<close>

lemma round_step_1: "round_double (110 / 100) = 4953959590107546 / 2 ^ 52"
  by code_simp

lemma round_step_2: "round_double (100000 * (4953959590107546 / 2 ^ 52)) = 110000 + 1 / 2 ^ 36"
  by code_simp

lemma round_step_3: "round_double (110000 + 1 / 2 ^ 36 - 100000) = 10000 + 1 / 2 ^ 36"
  by code_simp

lemma round_step_4: "round_double ((10000 + 1 / 2 ^ 36) / 100000) = 7205759403792804 / 2 ^ 56"
  by code_simp

lemma generate_report_single_long:
  "generate_report rnd [t\<lparr>signal := ''buy'', price := 100, close_price := Some 110\<rparr>] =
     Inr (Some \<lparr>initial_balance = 100000,
                final_balance = rnd (100000 * rnd (110 / 100)),
                total_return = rnd (rnd (rnd (100000 * rnd (110 / 100)) - 100000) / 100000)\<rparr>)"
  by (simp add: generate_report_def)

lemma generate_report_double_100_110:
  "generate_report round_double [t\<lparr>signal := ''buy'', price := 100, close_price := Some 110\<rparr>] =
     Inr (Some \<lparr>initial_balance = 100000, final_balance = 110000 + 1 / 2 ^ 36,
                total_return = 7205759403792804 / 2 ^ 56\<rparr>)"
  by (simp only: generate_report_single_long round_step_1 round_step_2 round_step_3 round_step_4)

lemma compound_balance_exact:
  assumes "\<forall>t\<in>set trades.
             (signal t = ''buy'' \<longrightarrow> close_price t \<noteq> None \<and> price t \<noteq> 0) \<and>
             (signal t = ''sell'' \<longrightarrow> close_price t \<noteq> None \<and> close_price t \<noteq> Some 0)"
  shows "compound_balance (\<lambda>x. x) b trades = Inr (b * prod_list (map spec_factor trades))"
  using assms
proof (induction trades arbitrary: b)
  case Nil
  then show ?case by simp
next
  case (Cons t trades)
  then show ?case
    by (auto simp: spec_factor_def mult.assoc split: option.splits)
qed

text \<open>
  C7 (as amended). \<^verbatim>\<open>generate_report\<close> starts from the balance 100000 and multiplies
  it by close price over entry price for each long trade and by entry price over close
  price for each short trade. In exact arithmetic, for every non-empty log whose trades
  have a close price and a non-zero divisor, the final balance is 100000 times the
  product of these factors and the total return is the final balance minus 100000,
  over 100000; for one long trade from 100 to 110 that is 110000 and 0.10. In Python's
  double arithmetic the total return of that log is not 0.10, but within 2e-16 of it.
\<close>

theorem generate_report_compounds:
  assumes "trades \<noteq> []"
    and "\<forall>t\<in>set trades.
           (signal t = ''buy'' \<longrightarrow> close_price t \<noteq> None \<and> price t \<noteq> 0) \<and>
           (signal t = ''sell'' \<longrightarrow> close_price t \<noteq> None \<and> close_price t \<noteq> Some 0)"
  shows "generate_report (\<lambda>x. x) trades =
           Inr (Some \<lparr>initial_balance = 100000,
                      final_balance = 100000 * prod_list (map spec_factor trades),
                      total_return =
                        (100000 * prod_list (map spec_factor trades) - 100000) / 100000\<rparr>) \<and>
         generate_report (\<lambda>x. x) [t\<lparr>signal := ''buy'', price := 100, close_price := Some 110\<rparr>] =
           Inr (Some \<lparr>initial_balance = 100000, final_balance = 110000, total_return = 0.1\<rparr>) \<and>
         (\<exists>r. generate_report round_double
                 [t\<lparr>signal := ''buy'', price := 100, close_price := Some 110\<rparr>] = Inr (Some r) \<and>
              \<bar>total_return r - 0.1\<bar> < 2 / 10 ^ 16)"
proof -
  have 1: "generate_report (\<lambda>x. x) trades =
           Inr (Some \<lparr>initial_balance = 100000,
                      final_balance = 100000 * prod_list (map spec_factor trades),
                      total_return =
                        (100000 * prod_list (map spec_factor trades) - 100000) / 100000\<rparr>)"
    using assms(1) compound_balance_exact [OF assms(2), of 100000]
    by (simp add: generate_report_def)
  have 2: "generate_report (\<lambda>x. x) [t\<lparr>signal := ''buy'', price := 100, close_price := Some 110\<rparr>] =
           Inr (Some \<lparr>initial_balance = 100000, final_balance = 110000, total_return = 0.1\<rparr>)"
    by (simp add: generate_report_def)
  have "\<bar>(7205759403792804 / 2 ^ 56 :: real) - 0.1\<bar> < 2 / 10 ^ 16"
    by simp
  then have 3: "\<exists>r. generate_report round_double
                 [t\<lparr>signal := ''buy'', price := 100, close_price := Some 110\<rparr>] = Inr (Some r) \<and>
              \<bar>total_return r - 0.1\<bar> < 2 / 10 ^ 16"
    by (simp add: generate_report_double_100_110)
  from 1 2 3 show ?thesis by (intro conjI)
qed

theorem generate_report_compounds_witness:
  "[new_trade ''buy'' 1 100 ''X''\<lparr>close_price := Some 110\<rparr>,
    new_trade ''sell'' 2 100 ''X''\<lparr>close_price := Some 80\<rparr>] \<noteq> [] \<and>
   signal (new_trade ''buy'' 1 100 ''X''\<lparr>close_price := Some 110\<rparr>) = ''buy'' \<and>
   close_price (new_trade ''buy'' 1 100 ''X''\<lparr>close_price := Some 110\<rparr>) = Some 110 \<and>
   price (new_trade ''buy'' 1 100 ''X''\<lparr>close_price := Some 110\<rparr>) = 100 \<and>
   signal (new_trade ''sell'' 2 100 ''X''\<lparr>close_price := Some 80\<rparr>) = ''sell'' \<and>
   close_price (new_trade ''sell'' 2 100 ''X''\<lparr>close_price := Some 80\<rparr>) = Some 80 \<and>
   price (new_trade ''sell'' 2 100 ''X''\<lparr>close_price := Some 80\<rparr>) = 100 \<and>
   generate_report (\<lambda>x. x)
     [new_trade ''buy'' 1 100 ''X''\<lparr>close_price := Some 110\<rparr>,
      new_trade ''sell'' 2 100 ''X''\<lparr>close_price := Some 80\<rparr>] =
     Inr (Some \<lparr>initial_balance = 100000, final_balance = 137500, total_return = 0.375\<rparr>)"
proof -
  let ?b = "new_trade ''buy'' 1 100 ''X''\<lparr>close_price := Some 110\<rparr>"
  let ?s = "new_trade ''sell'' 2 100 ''X''\<lparr>close_price := Some 80\<rparr>"
  have ne: "[?b, ?s] \<noteq> []" by simp
  have b: "signal ?b = ''buy''" "close_price ?b = Some 110" "price ?b = 100"
    by (simp_all add: new_trade_def)
  have s: "signal ?s = ''sell''" "close_price ?s = Some 80" "price ?s = 100"
    by (simp_all add: new_trade_def)
  have ok: "\<forall>t\<in>set [?b, ?s].
           (signal t = ''buy'' \<longrightarrow> close_price t \<noteq> None \<and> price t \<noteq> 0) \<and>
           (signal t = ''sell'' \<longrightarrow> close_price t \<noteq> None \<and> close_price t \<noteq> Some 0)"
    using b s by simp
  have f: "100000 * prod_list (map spec_factor [?b, ?s]) = 137500"
    by (simp add: spec_factor_def new_trade_def)
  have "generate_report (\<lambda>x. x) [?b, ?s] =
      Inr (Some \<lparr>initial_balance = 100000,
                 final_balance = 100000 * prod_list (map spec_factor [?b, ?s]),
                 total_return = (100000 * prod_list (map spec_factor [?b, ?s]) - 100000) / 100000\<rparr>)"
    by (rule generate_report_compounds [OF ne ok, THEN conjunct1])
  then have "generate_report (\<lambda>x. x) [?b, ?s] =
      Inr (Some \<lparr>initial_balance = 100000, final_balance = 137500, total_return = 0.375\<rparr>)"
    unfolding f by simp
  with ne b s show ?thesis by (intro conjI)
qed

text \<open>
  C7 as stated fails on the code's arithmetic: for the log of one long trade from 100
  to 110, Python's doubles give the final balance 110000 + 2^-36 (printed as
  110000.00000000001) and the total return 7205759403792804 / 2^56 (printed as
  0.10000000000000014), which is not 0.10.
\<close>

theorem generate_report_double_counterexample:
  "generate_report round_double [new_trade ''buy'' 1 100 ''X''\<lparr>close_price := Some 110\<rparr>] =
     Inr (Some \<lparr>initial_balance = 100000, final_balance = 110000 + 1 / 2 ^ 36,
                total_return = 7205759403792804 / 2 ^ 56\<rparr>) \<and>
   price (new_trade ''buy'' 1 100 ''X''\<lparr>close_price := Some 110\<rparr>) = 100 \<and>
   signal (new_trade ''buy'' 1 100 ''X''\<lparr>close_price := Some 110\<rparr>) = ''buy'' \<and>
   (7205759403792804 / 2 ^ 56 :: real) \<noteq> 0.1"
proof -
  have "new_trade ''buy'' 1 100 ''X''\<lparr>close_price := Some 110\<rparr> =
        new_trade ''buy'' 1 100 ''X''\<lparr>signal := ''buy'', price := 100, close_price := Some 110\<rparr>"
    by (simp add: new_trade_def)
  then show ?thesis
    using generate_report_double_100_110 [of "new_trade ''buy'' 1 100 ''X''"]
    by (simp add: new_trade_def)
qed

end
